theory Spec2Isabelle
  imports Complex_Main "HOL-Library.Sublist"
begin

section \<open>Python values used by \<^verbatim>\<open>brain.py\<close>\<close>

text \<open>
  The program is a single Python module.  Its functions are embedded as HOL functions:
  dictionaries with a fixed set of keys become records, the module-level
  \<^verbatim>\<open>st.session_state\<close> becomes an explicit session record that is passed in and
  returned, the list of restaurant dictionaries loaded from and saved to the database file
  becomes a catalog value that is passed in and returned, and every exception a branch can
  raise becomes an \<open>Inl\<close> result.  Strings are \<open>char list\<close>, a character standing for the
  code point of the same number: the strings of the embedding are the Python strings whose
  code points are below 256, and the case conversion and the whitespace and digit classes
  below are those of Python's Unicode-aware operations on these code points.
\<close>

datatype py_error = AttributeError | TypeError | ValueError | OverflowError

text \<open>
  A float decoded by \<^verbatim>\<open>json.loads\<close>: a finite number (every IEEE double is a rational),
  or one of the three special values the decoder accepts.
\<close>

datatype pyfloat = Fin rat | Nan | Inf bool

text \<open>The values \<^verbatim>\<open>json.loads\<close> produces; \<open>JNull\<close> is Python's \<^verbatim>\<open>None\<close>.\<close>

datatype json =
    JNull
  | JBool bool
  | JInt int
  | JFloat pyfloat
  | JStr string
  | JArr "json list"
  | JObj "(string \<times> json) list"

text \<open>Python truthiness, as \<^verbatim>\<open>if v:\<close> and \<^verbatim>\<open>a and b\<close> test it.\<close>

fun truthy :: "json \<Rightarrow> bool" where
  "truthy JNull = False"
| "truthy (JBool b) = b"
| "truthy (JInt n) = (n \<noteq> 0)"
| "truthy (JFloat (Fin q)) = (q \<noteq> 0)"
| "truthy (JFloat Nan) = True"
| "truthy (JFloat (Inf _)) = True"
| "truthy (JStr s) = (s \<noteq> [])"
| "truthy (JArr xs) = (xs \<noteq> [])"
| "truthy (JObj kvs) = (kvs \<noteq> [])"

text \<open>\<^verbatim>\<open>d.get(k)\<close> on a decoded object: the value, or \<^verbatim>\<open>None\<close> when the key is missing.\<close>

definition dict_get :: "(string \<times> json) list \<Rightarrow> string \<Rightarrow> json" where
  "dict_get d k = (case map_of d k of None \<Rightarrow> JNull | Some v \<Rightarrow> v)"

text \<open>
  \<^verbatim>\<open>n == v\<close> for an integer \<open>n\<close> and a decoded value \<open>v\<close>: Python compares numbers by
  value across \<^verbatim>\<open>int\<close>, \<^verbatim>\<open>float\<close> and \<^verbatim>\<open>bool\<close>; an integer never equals a string, a
  list, an object or \<^verbatim>\<open>None\<close>.
\<close>

fun int_eq_json :: "int \<Rightarrow> json \<Rightarrow> bool" where
  "int_eq_json n (JInt m) = (n = m)"
| "int_eq_json n (JBool b) = (n = (if b then 1 else 0))"
| "int_eq_json n (JFloat (Fin q)) = (of_int n = q)"
| "int_eq_json n _ = False"

subsection \<open>Strings\<close>

text \<open>
  The lower-case form of a character: the capital letters are \<^verbatim>\<open>A\<close> to \<^verbatim>\<open>Z\<close> and the
  code points 192 to 222 except the multiplication sign 215.
\<close>

definition lower_char :: "char \<Rightarrow> char" where
  "lower_char c =
     (let n = (of_char c :: nat) in
      if (65 \<le> n \<and> n \<le> 90) \<or> (192 \<le> n \<and> n \<le> 222 \<and> n \<noteq> 215) then char_of (n + 32) else c)"

text \<open>\<^verbatim>\<open>s.lower()\<close>\<close>

definition lower :: "string \<Rightarrow> string" where
  "lower s = map lower_char s"

text \<open>\<^verbatim>\<open>sub in s\<close> for two strings: \<open>sub\<close> occurs in \<open>s\<close> as a contiguous run.\<close>

fun py_in :: "string \<Rightarrow> string \<Rightarrow> bool" where
  "py_in sub [] = (sub = [])"
| "py_in sub (c # cs) = (prefix sub (c # cs) \<or> py_in sub cs)"

text \<open>
  Characters for which \<^verbatim>\<open>str.isspace()\<close> holds; they are the ones \<^verbatim>\<open>str.strip()\<close> removes
  and the pattern \<^verbatim>\<open>\s\<close> matches: tab to carriage return, the four separators 28 to 31,
  the space, the next-line control 133 and the no-break space 160.
\<close>

definition is_space :: "char \<Rightarrow> bool" where
  "is_space c =
     (let n = (of_char c :: nat) in
      (9 \<le> n \<and> n \<le> 13) \<or> (28 \<le> n \<and> n \<le> 32) \<or> n = 133 \<or> n = 160)"

text \<open>
  The decimal digits, which the pattern \<^verbatim>\<open>\d\<close> matches and \<^verbatim>\<open>int\<close> reads: below 256
  they are \<^verbatim>\<open>0\<close> to \<^verbatim>\<open>9\<close>.
\<close>

definition is_digit :: "char \<Rightarrow> bool" where
  "is_digit c = (let n = (of_char c :: nat) in 48 \<le> n \<and> n \<le> 57)"

definition digit_val :: "char \<Rightarrow> nat" where
  "digit_val c = of_char c - 48"

text \<open>\<^verbatim>\<open>s.strip()\<close>\<close>

definition strip :: "string \<Rightarrow> string" where
  "strip s = rev (dropWhile is_space (rev (dropWhile is_space s)))"

text \<open>The number a run of decimal digits denotes, most significant digit first.\<close>

definition digits_val :: "string \<Rightarrow> nat" where
  "digits_val ds = foldl (\<lambda>acc c. 10 * acc + digit_val c) 0 ds"

text \<open>
  The digit part of an integer literal as \<^verbatim>\<open>int(str)\<close> reads it: decimal digits, with single
  underscores allowed between digits.  \<open>prev\<close> tells whether the previous character was a
  digit.
\<close>

fun int_digits :: "bool \<Rightarrow> nat \<Rightarrow> string \<Rightarrow> nat option" where
  "int_digits prev acc [] = (if prev then Some acc else None)"
| "int_digits prev acc (c # cs) =
     (if is_digit c then int_digits True (10 * acc + digit_val c) cs
      else if c = CHR ''_'' \<and> prev then
        (case cs of [] \<Rightarrow> None | d # _ \<Rightarrow> if is_digit d then int_digits False acc cs else None)
      else None)"

text \<open>
  The whitespace \<^verbatim>\<open>int(str)\<close> skips before and after the literal.  It is not that of
  \<^verbatim>\<open>str.strip()\<close>: the conversion replaces the whitespace above the ASCII range by spaces
  and then skips the whitespace of the C locale, so the separators 28 to 31 are not
  skipped.
\<close>

definition int_space :: "char \<Rightarrow> bool" where
  "int_space c =
     (let n = (of_char c :: nat) in (9 \<le> n \<and> n \<le> 13) \<or> n = 32 \<or> n = 133 \<or> n = 160)"

definition int_strip :: "string \<Rightarrow> string" where
  "int_strip s = rev (dropWhile int_space (rev (dropWhile int_space s)))"

text \<open>
  The interpreter's limit on the number of digits of a decimal literal
  (\<^verbatim>\<open>sys.int_info.default_max_str_digits\<close>; the program does not change it).
\<close>

definition max_str_digits :: nat where
  "max_str_digits = 4300"

text \<open>
  \<^verbatim>\<open>int(s)\<close> for a string: surrounding whitespace, an optional sign, the digits.  A
  literal with more digits than the limit raises \<^verbatim>\<open>ValueError\<close>, as a malformed one does.
\<close>

definition int_literal :: "string \<Rightarrow> py_error + nat" where
  "int_literal body =
     (if length (filter is_digit body) > max_str_digits then Inl ValueError
      else case int_digits False 0 body of None \<Rightarrow> Inl ValueError | Some n \<Rightarrow> Inr n)"

definition int_of_str :: "string \<Rightarrow> py_error + int" where
  "int_of_str s =
     (case int_strip s of
        [] \<Rightarrow> Inl ValueError
      | c # cs \<Rightarrow>
          if c = CHR ''-'' then
            (case int_literal cs of Inl e \<Rightarrow> Inl e | Inr n \<Rightarrow> Inr (- int n))
          else if c = CHR ''+'' then
            (case int_literal cs of Inl e \<Rightarrow> Inl e | Inr n \<Rightarrow> Inr (int n))
          else
            (case int_literal (c # cs) of Inl e \<Rightarrow> Inl e | Inr n \<Rightarrow> Inr (int n)))"

text \<open>
  \<^verbatim>\<open>int(v)\<close> for a decoded value: integers are kept, booleans are 0 or 1, a finite float
  is truncated towards zero, a string is read as a literal; \<^verbatim>\<open>None\<close>, lists and objects
  raise \<^verbatim>\<open>TypeError\<close>, NaN raises \<^verbatim>\<open>ValueError\<close>, an infinity \<^verbatim>\<open>OverflowError\<close>.
\<close>

fun py_int :: "json \<Rightarrow> py_error + int" where
  "py_int (JInt n) = Inr n"
| "py_int (JBool b) = Inr (if b then 1 else 0)"
| "py_int (JFloat (Fin q)) = Inr (if 0 \<le> q then \<lfloor>q\<rfloor> else \<lceil>q\<rceil>)"
| "py_int (JFloat Nan) = Inl ValueError"
| "py_int (JFloat (Inf _)) = Inl OverflowError"
| "py_int (JStr s) = int_of_str s"
| "py_int JNull = Inl TypeError"
| "py_int (JArr _) = Inl TypeError"
| "py_int (JObj _) = Inl TypeError"

text \<open>
  What the extraction functions see of an oracle reply: \<^verbatim>\<open>re.search(r'\{.*\}', response,
  re.DOTALL)\<close> finds no braces (\<open>NoObject\<close>); it finds a candidate that \<^verbatim>\<open>json.loads\<close>
  rejects (\<open>Malformed\<close>); or the candidate decodes, and since it starts with a brace it
  decodes to an object (\<open>Object\<close>, the items of the dictionary).
\<close>

datatype reply = NoObject | Malformed | Object "(string \<times> json) list"

section \<open>Dates and times\<close>

text \<open>
  A \<^verbatim>\<open>datetime.datetime\<close> as \<^verbatim>\<open>strptime\<close> with the format \<^verbatim>\<open>%Y-%m-%d %H:%M\<close> builds it:
  seconds and microseconds are zero and there is no time zone.
\<close>

record datetime =
  dt_year :: nat
  dt_month :: nat
  dt_day :: nat
  dt_hour :: nat
  dt_minute :: nat

definition is_leap :: "nat \<Rightarrow> bool" where
  "is_leap y = (y mod 4 = 0 \<and> (y mod 100 \<noteq> 0 \<or> y mod 400 = 0))"

definition days_in_month :: "nat \<Rightarrow> nat \<Rightarrow> nat" where
  "days_in_month y m =
     (if m = 2 \<and> is_leap y then 29
      else [31, 28, 31, 30, 31, 30, 31, 31, 30, 31, 30, 31] ! (m - 1))"

text \<open>
  The weekday as the \<^verbatim>\<open>datetime\<close> module computes it: the proleptic Gregorian ordinal
  (1 January of year 1 is day 1), then \<^verbatim>\<open>(toordinal() + 6) % 7\<close>, Monday being 0.
\<close>

definition days_before_year :: "nat \<Rightarrow> int" where
  "days_before_year year =
     (let y = int year - 1 in y * 365 + y div 4 - y div 100 + y div 400)"

definition days_before_month :: "nat \<Rightarrow> nat \<Rightarrow> int" where
  "days_before_month year month =
     [0, 31, 59, 90, 120, 151, 181, 212, 243, 273, 304, 334] ! (month - 1)
       + (if month > 2 \<and> is_leap year then 1 else 0)"

definition toordinal :: "datetime \<Rightarrow> int" where
  "toordinal dt =
     days_before_year (dt_year dt) + days_before_month (dt_year dt) (dt_month dt)
       + int (dt_day dt)"

definition weekday :: "datetime \<Rightarrow> nat" where
  "weekday dt = nat ((toordinal dt + 6) mod 7)"

text \<open>
  The textbook weekday-from-date formula (Zeller's congruence for the Gregorian calendar,
  January and February counted as months 13 and 14 of the previous year), renumbered so
  that Monday is 0 and Sunday is 6.  It is the reference the program's weekday is compared
  with; nothing in the program calls it.
\<close>

definition standard_weekday :: "nat \<Rightarrow> nat \<Rightarrow> nat \<Rightarrow> nat" where
  "standard_weekday year month day =
     (let y = (if month < 3 then int year - 1 else int year);
          m = (if month < 3 then int month + 12 else int month);
          k = y mod 100;
          j = y div 100;
          h = (int day + (13 * (m + 1)) div 5 + k + k div 4 + j div 4 + 5 * j) mod 7
      in nat ((h + 5) mod 7))"

subsection \<open>Reading a date and time\<close>

text \<open>
  \<^verbatim>\<open>datetime.strptime(s, "%Y-%m-%d %H:%M")\<close> matches \<open>s\<close> against the pattern built from the
  format, \<^verbatim>\<open>(\d\d\d\d)-(1[0-2]|0[1-9]|[1-9])-(3[0-1]|[1-2]\d|0[1-9]|[1-9]| [1-9])\s+\<close>
  \<^verbatim>\<open>(2[0-3]|[0-1]\d|\d):([0-5]\d|\d)\<close>, and refuses text left over after the match.  The
  fields are separated by characters that are not digits, so each field is the whole run
  of digits up to its separator, and that run has to be one of the field's alternatives.
\<close>

definition month_token :: "string \<Rightarrow> nat option" where
  "month_token t =
     (if list_all is_digit t \<and> (length t = 1 \<or> length t = 2)
         \<and> 1 \<le> digits_val t \<and> digits_val t \<le> 12
      then Some (digits_val t) else None)"

definition day_token :: "string \<Rightarrow> nat option" where
  "day_token t =
     (if list_all is_digit t \<and> (length t = 1 \<or> length t = 2)
         \<and> 1 \<le> digits_val t \<and> digits_val t \<le> 31
      then Some (digits_val t) else None)"

definition hour_token :: "string \<Rightarrow> nat option" where
  "hour_token t =
     (if list_all is_digit t \<and> (length t = 1 \<or> length t = 2) \<and> digits_val t \<le> 23
      then Some (digits_val t) else None)"

definition minute_token :: "string \<Rightarrow> nat option" where
  "minute_token t =
     (if list_all is_digit t \<and> (length t = 1 \<or> length t = 2) \<and> digits_val t \<le> 59
      then Some (digits_val t) else None)"

text \<open>The hour and minute, after the whitespace that follows the day.\<close>

definition parse_clock :: "string \<Rightarrow> (nat \<times> nat) option" where
  "parse_clock s =
     (case dropWhile is_digit s of
        c # rest \<Rightarrow>
          if c = CHR '':'' then
            (case (hour_token (takeWhile is_digit s), minute_token rest) of
               (Some h, Some mi) \<Rightarrow> Some (h, mi)
             | _ \<Rightarrow> None)
          else None
      | [] \<Rightarrow> None)"

text \<open>
  The day, the whitespace and the clock, after the second hyphen.  The last alternative of
  the day is a space followed by one digit from 1 to 9.
\<close>

definition parse_day_clock :: "string \<Rightarrow> (nat \<times> nat \<times> nat) option" where
  "parse_day_clock s =
     (let (tok, rest) =
            (case s of
               c # d # r \<Rightarrow>
                 if c = CHR '' '' \<and> is_digit d \<and> d \<noteq> CHR ''0'' then ([d], r)
                 else (takeWhile is_digit s, dropWhile is_digit s)
             | _ \<Rightarrow> (takeWhile is_digit s, dropWhile is_digit s))
      in case rest of
           w # _ \<Rightarrow>
             if is_space w then
               (case (day_token tok, parse_clock (dropWhile is_space rest)) of
                  (Some d, Some (h, mi)) \<Rightarrow> Some (d, h, mi)
                | _ \<Rightarrow> None)
             else None
         | [] \<Rightarrow> None)"

definition parse_fields :: "string \<Rightarrow> (nat \<times> nat \<times> nat \<times> nat \<times> nat) option" where
  "parse_fields s =
     (if length s \<ge> 5 \<and> list_all is_digit (take 4 s) \<and> s ! 4 = CHR ''-'' then
        (let r1 = drop 5 s in
         case dropWhile is_digit r1 of
           c # r2 \<Rightarrow>
             if c = CHR ''-'' then
               (case (month_token (takeWhile is_digit r1), parse_day_clock r2) of
                  (Some m, Some (d, h, mi)) \<Rightarrow> Some (digits_val (take 4 s), m, d, h, mi)
                | _ \<Rightarrow> None)
             else None
         | [] \<Rightarrow> None)
      else None)"

text \<open>
  After the match the fields are turned into a date, which raises \<^verbatim>\<open>ValueError\<close> for the
  year 0 and for a day the month does not have.
\<close>

definition strptime :: "string \<Rightarrow> py_error + datetime" where
  "strptime s =
     (case parse_fields s of
        None \<Rightarrow> Inl ValueError
      | Some (y, m, d, h, mi) \<Rightarrow>
          if 1 \<le> y \<and> d \<le> days_in_month y m then
            Inr \<lparr>dt_year = y, dt_month = m, dt_day = d, dt_hour = h, dt_minute = mi\<rparr>
          else Inl ValueError)"

subsection \<open>Writing a date and time\<close>

text \<open>
  \<^verbatim>\<open>strftime\<close> takes the names of the days and months and the AM/PM marks from the
  process's \<^verbatim>\<open>LC_TIME\<close> setting.  The program never changes it, so it runs with the C
  setting \<open>c_names\<close>; the functions below take the names as a parameter.
\<close>

record time_names =
  day_name :: "nat \<Rightarrow> string"
  month_name :: "nat \<Rightarrow> string"
  am_pm :: "bool \<Rightarrow> string"

definition weekday_names :: "string list" where
  "weekday_names =
     [''Monday'', ''Tuesday'', ''Wednesday'', ''Thursday'', ''Friday'', ''Saturday'', ''Sunday'']"

definition c_names :: time_names where
  "c_names =
     \<lparr>day_name = (\<lambda>i. weekday_names ! i),
      month_name = (\<lambda>m. [''January'', ''February'', ''March'', ''April'', ''May'', ''June'',
                          ''July'', ''August'', ''September'', ''October'', ''November'',
                          ''December''] ! (m - 1)),
      am_pm = (\<lambda>pm. if pm then ''PM'' else ''AM'')\<rparr>"

fun show_nat :: "nat \<Rightarrow> string" where
  "show_nat n =
     (if n < 10 then [char_of (48 + n)] else show_nat (n div 10) @ [char_of (48 + n mod 10)])"

declare show_nat.simps [simp del]

definition show_int :: "int \<Rightarrow> string" where
  "show_int i = (if i < 0 then CHR ''-'' # show_nat (nat (- i)) else show_nat (nat i))"

definition pad2 :: "nat \<Rightarrow> string" where
  "pad2 n = (if n < 10 then CHR ''0'' # show_nat n else show_nat n)"

text \<open>\<^verbatim>\<open>dt.strftime("%A")\<close>\<close>

definition strftime_A :: "time_names \<Rightarrow> datetime \<Rightarrow> string" where
  "strftime_A lc dt = day_name lc (weekday dt)"

text \<open>\<^verbatim>\<open>dt.strftime("%B %d at %I:%M %p")\<close>\<close>

definition strftime_B_d_at :: "time_names \<Rightarrow> datetime \<Rightarrow> string" where
  "strftime_B_d_at lc dt =
     month_name lc (dt_month dt) @ '' '' @ pad2 (dt_day dt) @ '' at ''
       @ pad2 (if dt_hour dt mod 12 = 0 then 12 else dt_hour dt mod 12) @ '':''
       @ pad2 (dt_minute dt) @ '' '' @ am_pm lc (12 \<le> dt_hour dt)"

text \<open>\<^verbatim>\<open>dt.strftime('%A, %B %d at %I:%M %p')\<close>\<close>

definition strftime_full :: "time_names \<Rightarrow> datetime \<Rightarrow> string" where
  "strftime_full lc dt = strftime_A lc dt @ '', '' @ strftime_B_d_at lc dt"

section \<open>Extraction services\<close>

text \<open>
  Each extraction function sends a prompt built from the user's text to the language model
  and decodes the reply.  The model is outside the program; the functions below take its
  decoded reply as their argument.
\<close>

text \<open>
  \<^verbatim>\<open>parse_date_time\<close>.  The text handed to \<^verbatim>\<open>strptime\<close> is the f-string
  \<^verbatim>\<open>f"{parsed['date']} {parsed['time']}"\<close>.  When both values are strings it is their
  concatenation around one space.  When one of them is not a string, its rendering cannot
  take part in a match: a number, a boolean, a list or an object rendered in the date
  position does not start with four digits and a hyphen, and one rendered in the time
  position leaves the text without a colon before its last digits or ending in a bracket;
  \<^verbatim>\<open>strptime\<close> raises \<^verbatim>\<open>ValueError\<close>, which is the branch taken here.
\<close>

definition parse_date_time :: "time_names \<Rightarrow> reply \<Rightarrow> datetime option \<times> string" where
  "parse_date_time lc r =
     (case r of
        NoObject \<Rightarrow>
          (None, ''I couldn't parse that. Please specify when you'd like to make your reservation.'')
      | Malformed \<Rightarrow>
          (None, ''I'm having trouble understanding the date and time. Please use a format like 'tomorrow at 7 PM'.'')
      | Object parsed \<Rightarrow>
          if truthy (dict_get parsed ''date'') \<and> truthy (dict_get parsed ''time'')
             \<and> dict_get parsed ''date'' \<noteq> JStr ''null''
             \<and> dict_get parsed ''time'' \<noteq> JStr ''null''
          then
            (case (dict_get parsed ''date'', dict_get parsed ''time'') of
               (JStr d, JStr t) \<Rightarrow>
                 (case strptime (d @ '' '' @ t) of
                    Inr dt \<Rightarrow>
                      if strftime_A lc dt \<noteq> weekday_names ! weekday dt then
                        (Some dt,
                         ''Got it! Reservation for '' @ weekday_names ! weekday dt @ '', ''
                           @ strftime_B_d_at lc dt @ ''.'')
                      else (Some dt, '''')
                  | Inl _ \<Rightarrow>
                      (None, ''I couldn't understand that date format. Please specify a date and time.''))
             | _ \<Rightarrow>
                 (None, ''I couldn't understand that date format. Please specify a date and time.''))
          else (None, ''I couldn't determine the date or time. Please specify both.''))"

text \<open>\<^verbatim>\<open>parse_party_size\<close>: every exception of \<^verbatim>\<open>int(...)\<close> is caught by the bare \<^verbatim>\<open>except\<close>.\<close>

definition parse_party_size :: "reply \<Rightarrow> int option \<times> string" where
  "parse_party_size r =
     (case r of
        NoObject \<Rightarrow>
          (None, ''I couldn't parse that. Please specify how many people are in your party.'')
      | Malformed \<Rightarrow>
          (None, ''I'm having trouble understanding the party size. Please tell me how many people will be dining.'')
      | Object parsed \<Rightarrow>
          if truthy (dict_get parsed ''party_size'')
             \<and> dict_get parsed ''party_size'' \<noteq> JStr ''null''
          then
            (case py_int (dict_get parsed ''party_size'') of
               Inr n \<Rightarrow> (Some n, '''')
             | Inl _ \<Rightarrow>
                 (None, ''I'm having trouble understanding the party size. Please tell me how many people will be dining.''))
          else (None, ''I couldn't determine the party size. How many people will be dining?''))"

section \<open>The restaurant catalog\<close>

text \<open>
  The database file holds a list of restaurant dictionaries with the keys
  \<^verbatim>\<open>create_database\<close> writes.  The \<^verbatim>\<open>datetime\<close> entry of a reservation is the text
  \<^verbatim>\<open>datetime_obj.strftime("%Y-%m-%d %H:%M")\<close>; the record keeps the date and time that
  text renders.  The name and the party size are whatever the caller passes, \<^verbatim>\<open>None\<close>
  included.
\<close>

record reservation =
  res_id :: int
  res_name :: "string option"
  res_datetime :: datetime
  res_party_size :: "int option"
  res_status :: string

record restaurant =
  r_id :: int
  r_name :: string
  r_cuisine :: string
  r_location :: string
  r_price_range :: string
  r_rating :: rat
  r_seating_arrangements :: "string list"
  r_capacity :: int
  r_opening_hours :: "string \<times> string"
  r_specialties :: "string list"
  r_address :: string
  r_contact :: string
  r_reservations :: "reservation list"

subsection \<open>\<^verbatim>\<open>add_reservation\<close>\<close>

text \<open>
  The loop over the catalog stops at the first restaurant whose id equals
  \<^verbatim>\<open>restaurant_id\<close>.  The result carries the catalog as the call leaves it (and, after a
  commit, as \<^verbatim>\<open>save_database\<close> wrote it).  \<^verbatim>\<open>datetime_obj.strftime\<close> raises
  \<^verbatim>\<open>AttributeError\<close> on \<^verbatim>\<open>None\<close>, before anything is appended.
\<close>

fun add_reservation ::
  "restaurant list \<Rightarrow> json \<Rightarrow> string option \<Rightarrow> datetime option \<Rightarrow> int option
     \<Rightarrow> py_error + ((bool \<times> reservation option) \<times> restaurant list)" where
  "add_reservation [] restaurant_id name datetime_obj party_size = Inr ((False, None), [])"
| "add_reservation (r # rs) restaurant_id name datetime_obj party_size =
     (if int_eq_json (r_id r) restaurant_id then
        (case datetime_obj of
           None \<Rightarrow> Inl AttributeError
         | Some dt \<Rightarrow>
             (let reservation =
                    \<lparr>res_id = int (length (r_reservations r)) + 1,
                     res_name = name,
                     res_datetime = dt,
                     res_party_size = party_size,
                     res_status = ''confirmed''\<rparr>
              in Inr ((True, Some reservation),
                      r\<lparr>r_reservations := r_reservations r @ [reservation]\<rparr> # rs)))
      else
        (case add_reservation rs restaurant_id name datetime_obj party_size of
           Inl e \<Rightarrow> Inl e
         | Inr (res, rs') \<Rightarrow> Inr (res, r # rs')))"

subsection \<open>\<^verbatim>\<open>find_restaurants\<close>\<close>

text \<open>
  A search parameter takes part when it is truthy and not the text \<^verbatim>\<open>null\<close>.  Calling
  \<^verbatim>\<open>.lower()\<close> on a parameter that is not a string raises \<^verbatim>\<open>AttributeError\<close>; inside a
  list comprehension the call is only reached for an element of the list (for the seating
  filter: for a seating tag of an element).
\<close>

definition takes_part :: "json \<Rightarrow> bool" where
  "takes_part v = (truthy v \<and> v \<noteq> JStr ''null'')"

definition filter_cuisine :: "json \<Rightarrow> restaurant list \<Rightarrow> py_error + restaurant list" where
  "filter_cuisine v filtered =
     (if takes_part v then
        (case v of
           JStr q \<Rightarrow> Inr (filter (\<lambda>r. py_in (lower q) (lower (r_cuisine r))) filtered)
         | _ \<Rightarrow> if filtered = [] then Inr [] else Inl AttributeError)
      else Inr filtered)"

definition filter_location :: "json \<Rightarrow> restaurant list \<Rightarrow> py_error + restaurant list" where
  "filter_location v filtered =
     (if takes_part v then
        (case v of
           JStr q \<Rightarrow>
             Inr (filter (\<lambda>r. py_in (lower q) (lower (r_location r))
                              \<or> py_in (lower q) (lower (r_address r))) filtered)
         | _ \<Rightarrow> Inl AttributeError)
      else Inr filtered)"

definition filter_price_range :: "json \<Rightarrow> restaurant list \<Rightarrow> py_error + restaurant list" where
  "filter_price_range v filtered =
     (if takes_part v then
        (case v of
           JStr q \<Rightarrow> Inr (filter (\<lambda>r. py_in (lower q) (lower (r_price_range r))) filtered)
         | _ \<Rightarrow> if filtered = [] then Inr [] else Inl AttributeError)
      else Inr filtered)"

definition filter_seating :: "json \<Rightarrow> restaurant list \<Rightarrow> py_error + restaurant list" where
  "filter_seating v filtered =
     (if takes_part v then
        (case v of
           JStr q \<Rightarrow>
             Inr (filter (\<lambda>r. list_ex (\<lambda>s. py_in (lower q) (lower s)) (r_seating_arrangements r))
                    filtered)
         | _ \<Rightarrow>
             if list_ex (\<lambda>r. r_seating_arrangements r \<noteq> []) filtered then Inl AttributeError
             else Inr [])
      else Inr filtered)"

text \<open>
  \<^verbatim>\<open>sort(key=lambda x: x['rating'], reverse=True)\<close>: descending by rating, and stable
  (restaurants with equal ratings keep their order).
\<close>

definition by_rating_desc :: "restaurant list \<Rightarrow> restaurant list" where
  "by_rating_desc rs = sort_key (\<lambda>r. - r_rating r) rs"

text \<open>The four filters of \<^verbatim>\<open>find_restaurants\<close>, applied one after the other.\<close>

definition conjunctive_filter ::
  "(string \<times> json) list \<Rightarrow> restaurant list \<Rightarrow> py_error + restaurant list" where
  "conjunctive_filter params restaurants =
     (case filter_cuisine (dict_get params ''cuisine'') restaurants of
        Inl e \<Rightarrow> Inl e
      | Inr f1 \<Rightarrow>
     (case filter_location (dict_get params ''location'') f1 of
        Inl e \<Rightarrow> Inl e
      | Inr f2 \<Rightarrow>
     (case filter_price_range (dict_get params ''price_range'') f2 of
        Inl e \<Rightarrow> Inl e
      | Inr f3 \<Rightarrow> filter_seating (dict_get params ''seating'') f3)))"

text \<open>\<^verbatim>\<open>find_restaurants\<close>: the filters, then the cut to five and the fallback to three.\<close>

definition find_restaurants ::
  "(string \<times> json) list \<Rightarrow> restaurant list \<Rightarrow> py_error + restaurant list" where
  "find_restaurants params restaurants =
     (case conjunctive_filter params restaurants of
        Inl e \<Rightarrow> Inl e
      | Inr filtered \<Rightarrow>
          if length filtered > 5 then Inr (take 5 (by_rating_desc filtered))
          else if filtered = [] then Inr (take 3 (by_rating_desc restaurants))
          else Inr filtered)"

section \<open>The language model\<close>

text \<open>
  Every call of \<^verbatim>\<open>get_llm_response\<close> sends a prompt that is a fixed function of the
  caller's arguments, so a deterministic model is a function of those arguments.  The
  record has one field for each caller: the reply as text where the caller uses the text,
  and the decoded reply where the caller decodes it.
\<close>

record language_model =
  intent_reply :: "string \<Rightarrow> string"
  search_reply :: "string \<Rightarrow> reply"
  datetime_reply :: "string \<Rightarrow> reply"
  party_reply :: "string \<Rightarrow> reply"
  context_reply :: "string \<Rightarrow> string list \<Rightarrow> string \<Rightarrow> restaurant list \<Rightarrow> reply"
  suggestions_text :: "restaurant list \<Rightarrow> restaurant list \<Rightarrow> string"
  details_text :: "restaurant option \<Rightarrow> restaurant list \<Rightarrow> string"
  conversation_text :: "string \<Rightarrow> (string \<times> string) list \<Rightarrow> restaurant list \<Rightarrow> string"

datatype intent = Restaurant_search | Reservation | Details | Normal_conversation

text \<open>\<^verbatim>\<open>detect_intent\<close>: keywords looked up in the stripped, lower-cased reply.\<close>

definition detect_intent :: "language_model \<Rightarrow> string \<Rightarrow> intent" where
  "detect_intent orc user_input =
     (let response = lower (strip (intent_reply orc user_input)) in
      if py_in ''restaurant_search'' response \<or> py_in ''search'' response then Restaurant_search
      else if py_in ''reservation'' response \<or> py_in ''book'' response then Reservation
      else if py_in ''details'' response \<or> py_in ''information'' response then Details
      else Normal_conversation)"

text \<open>\<^verbatim>\<open>extract_search_params\<close>: the decoded object, or the empty dictionary.\<close>

definition extract_search_params :: "language_model \<Rightarrow> string \<Rightarrow> (string \<times> json) list" where
  "extract_search_params orc user_input =
     (case search_reply orc user_input of Object d \<Rightarrow> d | _ \<Rightarrow> [])"

text \<open>
  \<^verbatim>\<open>detect_intent_with_context\<close>: the decoded object; the fallback dictionary when decoding
  raises; and \<^verbatim>\<open>None\<close> when the reply has no braces, because the function then ends
  without a \<^verbatim>\<open>return\<close>.
\<close>

definition detect_intent_with_context ::
  "language_model \<Rightarrow> string \<Rightarrow> string list \<Rightarrow> string \<Rightarrow> restaurant list \<Rightarrow> (string \<times> json) list option" where
  "detect_intent_with_context orc user_input recent_suggestions last_message restaurants =
     (case context_reply orc user_input recent_suggestions last_message restaurants of
        Object d \<Rightarrow> Some d
      | Malformed \<Rightarrow>
          Some [(''intent'', JStr ''normal_conversation''), (''confidence'', JStr ''low''),
                (''restaurant_id'', JNull)]
      | NoObject \<Rightarrow> None)"

section \<open>The session\<close>

datatype state =
    GREETING | INTENT_DETECTION | FIND_RESTAURANT | RESTAURANT_SUGGESTION
  | RESTAURANT_DETAILS | MAKE_RESERVATION | DATA_COLLECTION | NAME_PROMPT | NAME_RECEIVED
  | DATETIME_PROMPT | DATETIME_RECEIVED | PARTY_PROMPT | PARTY_RECEIVED
  | CONFIRM_RESERVATION | RESERVATION_CONFIRMED | DATABASE_PUSH | RESERVATION_SUCCESS
  | ERROR_HANDLING | RESERVATION_RETRY | SUPPORT | THANK_YOU | NORMAL_CONVERSATION

datatype role = User | Assistant

text \<open>\<^verbatim>\<open>st.session_state.reservation_info\<close>\<close>

record draft =
  ri_name :: "string option"
  ri_datetime :: "datetime option"
  ri_party_size :: "int option"

text \<open>
  \<^verbatim>\<open>st.session_state\<close>.  The matched restaurant id is whatever was stored: an id of the
  catalog or a value the model returned; \<open>JNull\<close> is \<^verbatim>\<open>None\<close>.
\<close>

record session_state =
  state :: state
  chat_history :: "(role \<times> string) list"
  current_restaurant_id :: json
  reservation_info :: draft
  filtered_restaurants :: "restaurant list"
  last_processed_input :: "string option"

text \<open>The values \<^verbatim>\<open>main\<close> gives the keys of a new session.\<close>

definition initial_session :: session_state where
  "initial_session =
     \<lparr>state = GREETING,
      chat_history = [],
      current_restaurant_id = JNull,
      reservation_info = \<lparr>ri_name = None, ri_datetime = None, ri_party_size = None\<rparr>,
      filtered_restaurants = [],
      last_processed_input = None\<rparr>"

section \<open>The dialogue orchestrator\<close>

text \<open>
  \<^verbatim>\<open>process_state\<close> is a chain of \<^verbatim>\<open>if\<close>/\<^verbatim>\<open>elif\<close> branches on the current state, followed
  by a common tail that stores the next state and either calls itself again or returns the
  reply.  Each branch is a function from the user's text, the session and the catalog to
  \<^item> either the exception the branch raises, or the values of the local variables
    \<^verbatim>\<open>next_state\<close> and \<^verbatim>\<open>response\<close> (each possibly \<^verbatim>\<open>None\<close>) when the branch ends,
  \<^item> the session as the branch leaves it (a branch writes to the session before it can
    raise, and Streamlit keeps the session when a run ends with an exception),
  \<^item> the catalog as the branch leaves it.
\<close>

type_synonym branch_result =
  "(py_error + state option \<times> string option) \<times> session_state \<times> restaurant list"

definition wants_booking :: "string \<Rightarrow> bool" where
  "wants_booking user_input =
     (py_in ''reserv'' (lower user_input) \<or> py_in ''book'' (lower user_input))"

text \<open>\<^verbatim>\<open>xs[::2]\<close>\<close>

fun every_other :: "'a list \<Rightarrow> 'a list" where
  "every_other [] = []"
| "every_other [x] = [x]"
| "every_other (x # y # zs) = x # every_other zs"

text \<open>
  The history handed to \<^verbatim>\<open>generate_conversation_response\<close>: the comprehension pairs the
  \<open>i\<close>-th message of \<^verbatim>\<open>chat_history[:-1:2]\<close> with the message at index \<open>i + 1\<close> of the whole
  history.  The slice has at most half the length of the history without its last message,
  so the index is in range.
\<close>

definition conversation_pairs :: "(role \<times> string) list \<Rightarrow> (string \<times> string) list" where
  "conversation_pairs h =
     map (\<lambda>(i, msg). (snd msg, snd (h ! (i + 1)))) (enumerate 0 (every_other (butlast h)))"

text \<open>The first restaurant of the catalog with the given id, as \<^verbatim>\<open>next(..., default)\<close> finds it.\<close>

definition lookup_restaurant :: "restaurant list \<Rightarrow> json \<Rightarrow> restaurant option" where
  "lookup_restaurant restaurants rid = find (\<lambda>r. int_eq_json (r_id r) rid) restaurants"

definition branch_INTENT_DETECTION ::
  "language_model \<Rightarrow> string \<Rightarrow> session_state \<Rightarrow> restaurant list \<Rightarrow> branch_result" where
  "branch_INTENT_DETECTION orc user_input s restaurants =
     (case detect_intent orc user_input of
        Restaurant_search \<Rightarrow> (Inr (Some FIND_RESTAURANT, None), s, restaurants)
      | Reservation \<Rightarrow>
          if truthy (current_restaurant_id s) then
            (Inr (Some MAKE_RESERVATION,
                  Some ''Great! Let's make a reservation. Under what name should I make the reservation?''),
             s, restaurants)
          else
            (Inr (Some FIND_RESTAURANT,
                  Some ''I'd be happy to help you make a reservation. First, let's find a restaurant. Do you have any preferences for cuisine, location, or price range?''),
             s, restaurants)
      | Details \<Rightarrow>
          if truthy (current_restaurant_id s) then
            (Inr (Some RESTAURANT_DETAILS, None), s, restaurants)
          else
            (Inr (Some FIND_RESTAURANT,
                  Some ''I'd be happy to provide details about a restaurant. Which restaurant are you interested in?''),
             s, restaurants)
      | Normal_conversation \<Rightarrow>
          (Inr (Some NORMAL_CONVERSATION,
                Some (conversation_text orc user_input (conversation_pairs (chat_history s))
                        restaurants)),
           s, restaurants))"

definition branch_FIND_RESTAURANT ::
  "language_model \<Rightarrow> string \<Rightarrow> session_state \<Rightarrow> restaurant list \<Rightarrow> branch_result" where
  "branch_FIND_RESTAURANT orc user_input s restaurants =
     (case find_restaurants (extract_search_params orc user_input) restaurants of
        Inl e \<Rightarrow> (Inl e, s, restaurants)
      | Inr filtered \<Rightarrow>
          (Inr (Some RESTAURANT_SUGGESTION, Some (suggestions_text orc filtered restaurants)),
           s\<lparr>filtered_restaurants := filtered\<rparr>, restaurants))"

text \<open>
  The restaurant reference: the id of the first suggested restaurant whose lower-cased
  name occurs in the lower-cased text; when that gives nothing truthy, the
  \<^verbatim>\<open>restaurant_id\<close> entry of \<^verbatim>\<open>detect_intent_with_context\<close>, whose \<^verbatim>\<open>None\<close> result has no
  \<^verbatim>\<open>get\<close>.
\<close>

definition resolve_reference ::
  "language_model \<Rightarrow> string \<Rightarrow> session_state \<Rightarrow> restaurant list \<Rightarrow> py_error + json" where
  "resolve_reference orc user_input s restaurants =
     (let restaurant_id =
            (case find (\<lambda>r. py_in (lower (r_name r)) (lower user_input)) (filtered_restaurants s) of
               Some r \<Rightarrow> JInt (r_id r)
             | None \<Rightarrow> JNull)
      in if \<not> truthy restaurant_id then
           (case detect_intent_with_context orc user_input
                   (map r_name (filtered_restaurants s))
                   (if length (chat_history s) > 1
                    then snd (chat_history s ! (length (chat_history s) - 2)) else '''')
                   restaurants of
              None \<Rightarrow> Inl AttributeError
            | Some intent_data \<Rightarrow> Inr (dict_get intent_data ''restaurant_id''))
         else Inr restaurant_id)"

definition branch_RESTAURANT_SUGGESTION ::
  "language_model \<Rightarrow> string \<Rightarrow> session_state \<Rightarrow> restaurant list \<Rightarrow> branch_result" where
  "branch_RESTAURANT_SUGGESTION orc user_input s restaurants =
     (case resolve_reference orc user_input s restaurants of
        Inl e \<Rightarrow> (Inl e, s, restaurants)
      | Inr restaurant_id \<Rightarrow>
          if truthy restaurant_id then
            (let s' = s\<lparr>current_restaurant_id := restaurant_id\<rparr>;
                 restaurant = lookup_restaurant restaurants restaurant_id
             in if wants_booking user_input then
                  (case restaurant of
                     None \<Rightarrow> (Inl TypeError, s', restaurants)
                   | Some r \<Rightarrow>
                       (Inr (Some MAKE_RESERVATION,
                             Some (''Great! I'll make a reservation at '' @ r_name r
                                     @ '' for you. Under what name should I make the reservation?'')),
                        s', restaurants))
                else
                  (Inr (Some RESTAURANT_DETAILS, Some (details_text orc restaurant restaurants)),
                   s', restaurants))
          else if wants_booking user_input then
            (Inr (None,
                  Some ''Which of these restaurants would you like to make a reservation for? Please specify the restaurant name clearly.''),
             s, restaurants)
          else (Inr (Some INTENT_DETECTION, None), s, restaurants))"

definition branch_RESTAURANT_DETAILS ::
  "language_model \<Rightarrow> string \<Rightarrow> session_state \<Rightarrow> restaurant list \<Rightarrow> branch_result" where
  "branch_RESTAURANT_DETAILS orc user_input s restaurants =
     (let intent = detect_intent orc user_input in
      if wants_booking user_input \<or> intent = Reservation then
        (Inr (Some MAKE_RESERVATION,
              Some ''Great! I'd be happy to make a reservation for you. Under what name should I make the reservation?''),
         s, restaurants)
      else (Inr (Some INTENT_DETECTION, None), s, restaurants))"

definition branch_NAME_PROMPT ::
  "string \<Rightarrow> session_state \<Rightarrow> restaurant list \<Rightarrow> branch_result" where
  "branch_NAME_PROMPT user_input s restaurants =
     (Inr (Some DATETIME_PROMPT,
           Some (''Thank you, '' @ user_input
                   @ ''. When would you like to make your reservation? Please specify the date and time.'')),
      s\<lparr>reservation_info := (reservation_info s)\<lparr>ri_name := Some user_input\<rparr>\<rparr>, restaurants)"

definition branch_DATETIME_PROMPT ::
  "language_model \<Rightarrow> time_names \<Rightarrow> string \<Rightarrow> session_state \<Rightarrow> restaurant list \<Rightarrow> branch_result" where
  "branch_DATETIME_PROMPT orc lc user_input s restaurants =
     (case parse_date_time lc (datetime_reply orc user_input) of
        (Some datetime_obj, error_msg) \<Rightarrow>
          (Inr (Some PARTY_PROMPT,
                Some (''Got it! Reservation for '' @ strftime_full lc datetime_obj
                        @ ''. How many people will be in your party?'')),
           s\<lparr>reservation_info := (reservation_info s)\<lparr>ri_datetime := Some datetime_obj\<rparr>\<rparr>,
           restaurants)
      | (None, error_msg) \<Rightarrow> (Inr (None, Some error_msg), s, restaurants))"

text \<open>
  The summary is an f-string: a name that is \<^verbatim>\<open>None\<close> is rendered as the text
  \<^verbatim>\<open>None\<close>, and \<^verbatim>\<open>strftime\<close> on a date that is \<^verbatim>\<open>None\<close> raises \<^verbatim>\<open>AttributeError\<close>
  after the party size has been stored.
\<close>

definition branch_PARTY_PROMPT ::
  "language_model \<Rightarrow> time_names \<Rightarrow> string \<Rightarrow> session_state \<Rightarrow> restaurant list \<Rightarrow> branch_result" where
  "branch_PARTY_PROMPT orc lc user_input s restaurants =
     (case parse_party_size (party_reply orc user_input) of
        (Some party_size, error_msg) \<Rightarrow>
          if party_size \<noteq> 0 then
            (let s' = s\<lparr>reservation_info := (reservation_info s)\<lparr>ri_party_size := Some party_size\<rparr>\<rparr>;
                 restaurant_name =
                   (case lookup_restaurant restaurants (current_restaurant_id s) of
                      Some r \<Rightarrow> r_name r
                    | None \<Rightarrow> ''the restaurant'')
             in case ri_datetime (reservation_info s) of
                  None \<Rightarrow> (Inl AttributeError, s', restaurants)
                | Some dt \<Rightarrow>
                    (Inr (Some CONFIRM_RESERVATION,
                          Some (''Great! Let me confirm your reservation:'' @ [CHR 0x0A, CHR 0x0A]
                                  @ ''Name: ''
                                  @ (case ri_name (reservation_info s) of
                                       None \<Rightarrow> ''None'' | Some n \<Rightarrow> n)
                                  @ [CHR 0x0A] @ ''Restaurant: '' @ restaurant_name
                                  @ [CHR 0x0A] @ ''Date & Time: '' @ strftime_full lc dt
                                  @ [CHR 0x0A] @ ''Party Size: '' @ show_int party_size
                                  @ '' people'' @ [CHR 0x0A, CHR 0x0A]
                                  @ ''Is this information correct? (yes/no)'')),
                     s', restaurants))
          else (Inr (None, Some error_msg), s, restaurants)
      | (None, error_msg) \<Rightarrow> (Inr (None, Some error_msg), s, restaurants))"

definition branch_CONFIRM_RESERVATION ::
  "string \<Rightarrow> session_state \<Rightarrow> restaurant list \<Rightarrow> branch_result" where
  "branch_CONFIRM_RESERVATION user_input s restaurants =
     (if py_in ''yes'' (lower user_input) \<or> py_in ''correct'' (lower user_input)
         \<or> py_in ''confirm'' (lower user_input)
      then
        (Inr (Some RESERVATION_CONFIRMED,
              Some ''Thank you for confirming. I'm processing your reservation now...''),
         s, restaurants)
      else
        (Inr (Some MAKE_RESERVATION,
              Some ''Let's try again. Under what name should I make the reservation?''),
         s, restaurants))"

text \<open>
  The only call of \<^verbatim>\<open>add_reservation\<close>.  The session is not written to in this branch.
\<close>

definition branch_RESERVATION_CONFIRMED ::
  "time_names \<Rightarrow> session_state \<Rightarrow> restaurant list \<Rightarrow> branch_result" where
  "branch_RESERVATION_CONFIRMED lc s restaurants =
     (case add_reservation restaurants (current_restaurant_id s)
             (ri_name (reservation_info s)) (ri_datetime (reservation_info s))
             (ri_party_size (reservation_info s)) of
        Inl e \<Rightarrow> (Inl e, s, restaurants)
      | Inr ((success, reservation), restaurants') \<Rightarrow>
          if success then
            (let restaurant_name =
                   (case lookup_restaurant restaurants' (current_restaurant_id s) of
                      Some r \<Rightarrow> r_name r
                    | None \<Rightarrow> ''the restaurant'')
             in case ri_datetime (reservation_info s) of
                  None \<Rightarrow> (Inl AttributeError, s, restaurants')
                | Some dt \<Rightarrow>
                    (Inr (Some RESERVATION_SUCCESS,
                          Some (''Your reservation at '' @ restaurant_name
                                  @ '' has been confirmed! We look forward to serving you on ''
                                  @ strftime_full lc dt
                                  @ ''. Is there anything else you would like to know?'')),
                     s, restaurants'))
          else
            (Inr (Some ERROR_HANDLING,
                  Some ''I'm sorry, there was an error processing your reservation. Would you like to try again or speak with customer support?''),
             s, restaurants'))"

definition branch_ERROR_HANDLING ::
  "string \<Rightarrow> session_state \<Rightarrow> restaurant list \<Rightarrow> branch_result" where
  "branch_ERROR_HANDLING user_input s restaurants =
     (if py_in ''try'' (lower user_input) \<or> py_in ''again'' (lower user_input) then
        (Inr (Some RESERVATION_RETRY,
              Some ''Let's try making your reservation again. Under what name should I make the reservation?''),
         s, restaurants)
      else
        (Inr (Some SUPPORT,
              Some ''I'll connect you with customer support. Please call +91 80 12345678 during business hours (9 AM - 6 PM) for assistance with your reservation.''),
         s, restaurants))"

text \<open>
  The whole chain.  The states \<open>GREETING\<close>, \<open>DATA_COLLECTION\<close>, \<open>NAME_RECEIVED\<close>,
  \<open>DATETIME_RECEIVED\<close>, \<open>PARTY_RECEIVED\<close> and \<open>DATABASE_PUSH\<close> have no branch: both local
  variables stay \<^verbatim>\<open>None\<close>.
\<close>

definition branch ::
  "language_model \<Rightarrow> time_names \<Rightarrow> string \<Rightarrow> session_state \<Rightarrow> restaurant list \<Rightarrow> branch_result" where
  "branch orc lc user_input s restaurants =
     (case state s of
        INTENT_DETECTION \<Rightarrow> branch_INTENT_DETECTION orc user_input s restaurants
      | FIND_RESTAURANT \<Rightarrow> branch_FIND_RESTAURANT orc user_input s restaurants
      | RESTAURANT_SUGGESTION \<Rightarrow> branch_RESTAURANT_SUGGESTION orc user_input s restaurants
      | RESTAURANT_DETAILS \<Rightarrow> branch_RESTAURANT_DETAILS orc user_input s restaurants
      | MAKE_RESERVATION \<Rightarrow>
          (Inr (Some NAME_PROMPT, Some ''Under what name should I make the reservation?''),
           s, restaurants)
      | NAME_PROMPT \<Rightarrow> branch_NAME_PROMPT user_input s restaurants
      | DATETIME_PROMPT \<Rightarrow> branch_DATETIME_PROMPT orc lc user_input s restaurants
      | PARTY_PROMPT \<Rightarrow> branch_PARTY_PROMPT orc lc user_input s restaurants
      | CONFIRM_RESERVATION \<Rightarrow> branch_CONFIRM_RESERVATION user_input s restaurants
      | RESERVATION_CONFIRMED \<Rightarrow> branch_RESERVATION_CONFIRMED lc s restaurants
      | ERROR_HANDLING \<Rightarrow> branch_ERROR_HANDLING user_input s restaurants
      | RESERVATION_RETRY \<Rightarrow>
          (Inr (Some MAKE_RESERVATION,
                Some ''Let's start over with your reservation. Under what name should I make the reservation?''),
           s, restaurants)
      | SUPPORT \<Rightarrow>
          (Inr (Some INTENT_DETECTION,
                Some ''Our customer support team is available to help you. Is there anything else I can assist you with?''),
           s, restaurants)
      | RESERVATION_SUCCESS \<Rightarrow>
          (Inr (Some THANK_YOU,
                Some ''Thank you for using Alfred! Your reservation has been confirmed. Is there anything else you would like assistance with?''),
           s, restaurants)
      | THANK_YOU \<Rightarrow> (Inr (Some INTENT_DETECTION, None), s, restaurants)
      | NORMAL_CONVERSATION \<Rightarrow> (Inr (Some INTENT_DETECTION, None), s, restaurants)
      | _ \<Rightarrow> (Inr (None, None), s, restaurants))"

definition fallback_reply :: string where
  "fallback_reply =
     ''I'm not sure what you're looking for. Would you like to search for restaurants or make a reservation?''"

text \<open>
  \<^verbatim>\<open>process_state\<close>: the branch of the current state, then the tail.  The next state is
  stored when one was set.  When there is no reply and the state changed, the function
  calls itself with the same text; Python bounds the depth of that recursion only by
  raising \<^verbatim>\<open>RecursionError\<close>, so a call that never reaches a reply returns nothing:
  the value \<open>None\<close> here.  Otherwise the reply is returned, the fallback text standing in
  for a missing or empty one.  An exception ends the call with the session as the branch
  left it.
\<close>

partial_function (option) process_state ::
  "language_model \<Rightarrow> time_names \<Rightarrow> string \<Rightarrow> session_state \<times> restaurant list
     \<Rightarrow> ((py_error + string) \<times> session_state \<times> restaurant list) option" where
  "process_state orc lc user_input w =
     (case branch orc lc user_input (fst w) (snd w) of
        (Inl e, s', restaurants') \<Rightarrow> Some (Inl e, s', restaurants')
      | (Inr (next_state, response), s', restaurants') \<Rightarrow>
          (let s'' = (case next_state of Some n \<Rightarrow> s'\<lparr>state := n\<rparr> | None \<Rightarrow> s') in
           if response = None \<and> next_state \<noteq> None \<and> next_state \<noteq> Some (state (fst w)) then
             process_state orc lc user_input (s'', restaurants')
           else
             Some (Inr (case response of
                          None \<Rightarrow> fallback_reply
                        | Some r \<Rightarrow> if r = [] then fallback_reply else r),
                   s'', restaurants')))"

declare process_state.simps [code]

subsection \<open>One run of \<^verbatim>\<open>main\<close>\<close>

definition greeting :: string where
  "greeting =
     ''Hello! I'm Alfred, your Bengaluru restaurant assistant. I can help you find restaurants and make reservations. What are you looking for today?''"

text \<open>
  One run of the script with what \<^verbatim>\<open>st.chat_input\<close> returned (\<^verbatim>\<open>None\<close> when nothing was
  submitted), on the session and the catalog the run finds.  The result is what the run
  showed as the assistant's reply (if it processed the text), or the exception that ended
  it, with the session and the catalog it leaves behind.
\<close>

definition main ::
  "language_model \<Rightarrow> time_names \<Rightarrow> string option \<Rightarrow> session_state \<times> restaurant list
     \<Rightarrow> ((py_error + string option) \<times> session_state \<times> restaurant list) option" where
  "main orc lc chat_input w =
     (let s0 = fst w;
          restaurants = snd w;
          s1 = (if state s0 = GREETING \<and> chat_history s0 = [] then
                  s0\<lparr>chat_history := [(Assistant, greeting)], state := INTENT_DETECTION\<rparr>
                else s0)
      in case chat_input of
           None \<Rightarrow> Some (Inr None, s1, restaurants)
         | Some user_input \<Rightarrow>
             if user_input \<noteq> [] \<and> Some user_input \<noteq> last_processed_input s1 then
               (let s2 = s1\<lparr>last_processed_input := Some user_input,
                            chat_history := chat_history s1 @ [(User, user_input)]\<rparr>
                in case process_state orc lc user_input (s2, restaurants) of
                     None \<Rightarrow> None
                   | Some (Inl e, s3, restaurants') \<Rightarrow> Some (Inl e, s3, restaurants')
                   | Some (Inr response, s3, restaurants') \<Rightarrow>
                       Some (Inr (Some response),
                             s3\<lparr>chat_history := chat_history s3 @ [(Assistant, response)]\<rparr>,
                             restaurants'))
             else Some (Inr None, s1, restaurants))"

section \<open>Notions used to state the properties\<close>

text \<open>A search query in the sense of the data model: each of the four fields is absent or a string.\<close>

definition optional_text :: "json \<Rightarrow> bool" where
  "optional_text v = (case v of JNull \<Rightarrow> True | JStr _ \<Rightarrow> True | _ \<Rightarrow> False)"

definition search_query :: "(string \<times> json) list \<Rightarrow> bool" where
  "search_query params =
     (optional_text (dict_get params ''cuisine'') \<and> optional_text (dict_get params ''location'')
      \<and> optional_text (dict_get params ''price_range'')
      \<and> optional_text (dict_get params ''seating''))"

text \<open>The days up to the end of year \<open>n\<close>, the part of the ordinal that depends on the year.\<close>

definition year_days :: "int \<Rightarrow> int" where
  "year_days n = n * 365 + n div 4 - n div 100 + n div 400"

text \<open>
  The texts the prompt of \<^verbatim>\<open>parse_date_time\<close> asks the language model for, a date as
  \<^verbatim>\<open>YYYY-MM-DD\<close> and a time as \<^verbatim>\<open>HH:MM\<close>.
\<close>

definition two_digits :: "nat \<Rightarrow> string" where
  "two_digits n = [char_of (48 + n div 10 mod 10), char_of (48 + n mod 10)]"

definition four_digits :: "nat \<Rightarrow> string" where
  "four_digits n = two_digits (n div 100) @ two_digits n"

definition iso_date :: "nat \<Rightarrow> nat \<Rightarrow> nat \<Rightarrow> string" where
  "iso_date y m d = four_digits y @ ''-'' @ two_digits m @ ''-'' @ two_digits d"

definition iso_time :: "nat \<Rightarrow> nat \<Rightarrow> string" where
  "iso_time h mi = two_digits h @ '':'' @ two_digits mi"

text \<open>Successive runs of the script, one for each submitted text.\<close>

fun turns ::
  "language_model \<Rightarrow> time_names \<Rightarrow> string list \<Rightarrow> session_state \<times> restaurant list
     \<Rightarrow> (session_state \<times> restaurant list) option" where
  "turns orc lc [] w = Some w"
| "turns orc lc (u # us) w =
     (case main orc lc (Some u) w of None \<Rightarrow> None | Some (out, w') \<Rightarrow> turns orc lc us w')"

definition draft_complete :: "session_state \<Rightarrow> bool" where
  "draft_complete s =
     (ri_name (reservation_info s) \<noteq> None \<and> ri_datetime (reservation_info s) \<noteq> None
      \<and> ri_party_size (reservation_info s) \<noteq> None)"

text \<open>
  The sessions and catalogs the program can be in, with the states whose branches have run
  so far, oldest first.  A step is one pass through the branches of \<^verbatim>\<open>process_state\<close>
  (ending normally or with an exception), the greeting of \<^verbatim>\<open>main\<close>, or the bookkeeping of
  \<^verbatim>\<open>main\<close>, which writes the chat history and the last processed input.  The language
  model, the user's text and the bookkeeping values are arbitrary at every step.
\<close>

inductive reaches :: "state list \<Rightarrow> session_state \<times> restaurant list \<Rightarrow> bool" where
  start: "reaches [] (initial_session, restaurants)"
| bookkeeping:
    "reaches tr (s, c) \<Longrightarrow> reaches tr (s\<lparr>chat_history := h, last_processed_input := l\<rparr>, c)"
| greeted:
    "reaches tr (s, c) \<Longrightarrow> state s = GREETING \<Longrightarrow> reaches tr (s\<lparr>state := INTENT_DETECTION\<rparr>, c)"
| raised:
    "reaches tr (s, c) \<Longrightarrow> branch orc lc u s c = (Inl e, s', c') \<Longrightarrow> reaches (tr @ [state s]) (s', c')"
| passed:
    "reaches tr (s, c) \<Longrightarrow> branch orc lc u s c = (Inr (next_state, response), s', c')
       \<Longrightarrow> reaches (tr @ [state s])
             (case next_state of Some n \<Rightarrow> s'\<lparr>state := n\<rparr> | None \<Rightarrow> s', c')"

text \<open>
  What holds of every session the program reaches, in terms of the states whose branches
  have run: the states of the reservation flow are only entered with a matched restaurant
  and with the draft fields their predecessors store, and a stored value tells that the
  branch storing it has run.
\<close>

definition session_invariant :: "state list \<Rightarrow> session_state \<Rightarrow> bool" where
  "session_invariant tr s =
     ((state s \<in> {RESTAURANT_DETAILS, MAKE_RESERVATION, NAME_PROMPT, DATETIME_PROMPT,
                   PARTY_PROMPT, CONFIRM_RESERVATION, RESERVATION_CONFIRMED, ERROR_HANDLING,
                   RESERVATION_RETRY}
         \<longrightarrow> truthy (current_restaurant_id s))
      \<and> (state s \<in> {DATETIME_PROMPT, PARTY_PROMPT, CONFIRM_RESERVATION, RESERVATION_CONFIRMED}
         \<longrightarrow> ri_name (reservation_info s) \<noteq> None)
      \<and> (state s \<in> {PARTY_PROMPT, CONFIRM_RESERVATION, RESERVATION_CONFIRMED}
         \<longrightarrow> ri_datetime (reservation_info s) \<noteq> None)
      \<and> (state s \<in> {CONFIRM_RESERVATION, RESERVATION_CONFIRMED}
         \<longrightarrow> ri_party_size (reservation_info s) \<noteq> None)
      \<and> (current_restaurant_id s \<noteq> JNull \<longrightarrow> RESTAURANT_SUGGESTION \<in> set tr)
      \<and> (ri_name (reservation_info s) \<noteq> None \<longrightarrow> NAME_PROMPT \<in> set tr)
      \<and> (ri_datetime (reservation_info s) \<noteq> None \<longrightarrow> DATETIME_PROMPT \<in> set tr)
      \<and> (ri_party_size (reservation_info s) \<noteq> None \<longrightarrow> PARTY_PROMPT \<in> set tr))"

text \<open>The states of the path that leads from a failed commit back to the commit.\<close>

definition on_retry_path :: "state \<Rightarrow> bool" where
  "on_retry_path st =
     (st = ERROR_HANDLING \<or> st = RESERVATION_RETRY \<or> st = MAKE_RESERVATION \<or> st = NAME_PROMPT
      \<or> st = DATETIME_PROMPT \<or> st = PARTY_PROMPT \<or> st = CONFIRM_RESERVATION
      \<or> st = RESERVATION_CONFIRMED)"

text \<open>
  Any number of calls of \<^verbatim>\<open>process_state\<close>, each made in a state of the retry path, with
  any text and any language model.
\<close>

inductive retries ::
  "session_state \<times> restaurant list \<Rightarrow> session_state \<times> restaurant list \<Rightarrow> bool" where
  here: "retries w w"
| again:
    "retries w w1 \<Longrightarrow> on_retry_path (state (fst w1))
       \<Longrightarrow> process_state orc lc u w1 = Some (out, w2) \<Longrightarrow> retries w w2"

subsection \<open>Example data\<close>

definition spice_garden :: restaurant where
  "spice_garden =
     \<lparr>r_id = 1, r_name = ''Spice Garden'', r_cuisine = ''Italian'', r_location = ''Indiranagar'',
      r_price_range = ''1000-1500'', r_rating = 9 / 2,
      r_seating_arrangements = [''Indoor'', ''Rooftop''], r_capacity = 50,
      r_opening_hours = (''9:00 AM - 10:00 PM'', ''10:00 AM - 11:00 PM''),
      r_specialties = [''Signature dish 1'', ''Special drink 1''],
      r_address = ''12, Main, Indiranagar, Bengaluru'', r_contact = ''+91 6000000000'',
      r_reservations = []\<rparr>"

definition bamboo_bytes :: restaurant where
  "bamboo_bytes =
     \<lparr>r_id = 2, r_name = ''Bamboo Bytes'', r_cuisine = ''Chinese'', r_location = ''Koramangala'',
      r_price_range = ''500-1000'', r_rating = 4,
      r_seating_arrangements = [''Outdoor''], r_capacity = 80,
      r_opening_hours = (''8:00 AM - 9:00 PM'', ''8:00 AM - 11:00 PM''),
      r_specialties = [''Signature dish 2'', ''Special drink 2''],
      r_address = ''7, Cross, Koramangala, Bengaluru'', r_contact = ''+91 7000000000'',
      r_reservations =
        [\<lparr>res_id = 1, res_name = Some ''Ravi'',
          res_datetime = \<lparr>dt_year = 2025, dt_month = 6, dt_day = 1, dt_hour = 20, dt_minute = 0\<rparr>,
          res_party_size = Some 2, res_status = ''confirmed''\<rparr>]\<rparr>"

definition example_catalog :: "restaurant list" where
  "example_catalog = [spice_garden, bamboo_bytes]"

text \<open>
  A deterministic language model: it classifies every text containing \<^verbatim>\<open>find\<close> as a
  search and every other text as conversation, extracts the cuisine Italian, the date
  2025-06-14 (asserting, wrongly, that it is a Monday), the time 19:30 and a party of four,
  and answers every other request with a fixed text.
\<close>

definition example_model :: language_model where
  "example_model =
     \<lparr>intent_reply = (\<lambda>u. if py_in ''find'' u then ''restaurant_search'' else ''normal_conversation''),
      search_reply = (\<lambda>u. Object [(''cuisine'', JStr ''Italian'')]),
      datetime_reply =
        (\<lambda>u. Object [(''date'', JStr ''2025-06-14''), (''time'', JStr ''19:30''),
                      (''weekday'', JStr ''Monday''), (''confidence'', JStr ''high'')]),
      party_reply = (\<lambda>u. Object [(''party_size'', JInt 4), (''confidence'', JStr ''high'')]),
      context_reply = (\<lambda>u names last rs. NoObject),
      suggestions_text = (\<lambda>filtered rs. ''Here are some options.''),
      details_text = (\<lambda>r rs. ''Here are the details.''),
      conversation_text = (\<lambda>u h rs. ''Happy to help.'')\<rparr>"

text \<open>
  A deterministic language model that classifies every text containing \<^verbatim>\<open>find\<close> as a
  search and answers every other intent request with \<^verbatim>\<open>details\<close>.
\<close>

definition details_model :: language_model where
  "details_model =
     example_model
       \<lparr>intent_reply := (\<lambda>u. if py_in ''find'' u then ''restaurant_search'' else ''details'')\<rparr>"

definition saturday_evening :: datetime where
  "saturday_evening = \<lparr>dt_year = 2025, dt_month = 6, dt_day = 14, dt_hour = 19, dt_minute = 30\<rparr>"

text \<open>
  The session after the user has searched and then named a suggested restaurant: the
  restaurant is matched and its details have been shown.
\<close>

definition details_session :: session_state where
  "details_session =
     initial_session
       \<lparr>state := RESTAURANT_DETAILS,
        chat_history := [(Assistant, greeting), (User, ''find italian''),
                         (Assistant, ''Here are some options.''), (User, ''Spice Garden''),
                         (Assistant, ''Here are the details.'')],
        current_restaurant_id := JInt 1,
        filtered_restaurants := [spice_garden],
        last_processed_input := Some ''Spice Garden''\<rparr>"

text \<open>
  A session whose commit has just failed: the matched restaurant id 99 is not an id of the
  example catalog.
\<close>

definition failed_session :: session_state where
  "failed_session =
     initial_session
       \<lparr>state := ERROR_HANDLING,
        current_restaurant_id := JInt 99,
        reservation_info :=
          \<lparr>ri_name = Some ''Asha'', ri_datetime = Some saturday_evening,
           ri_party_size = Some 4\<rparr>\<rparr>"

text \<open>
  Calls of \<^verbatim>\<open>process_state\<close> with the given texts, one after the other, as long as the
  session is on the retry path.
\<close>

fun retry_run ::
  "language_model \<Rightarrow> time_names \<Rightarrow> string list \<Rightarrow> session_state \<times> restaurant list
     \<Rightarrow> (session_state \<times> restaurant list) option" where
  "retry_run orc lc [] w = Some w"
| "retry_run orc lc (u # us) w =
     (if on_retry_path (state (fst w)) then
        (case process_state orc lc u w of
           None \<Rightarrow> None
         | Some (out, w') \<Rightarrow> retry_run orc lc us w')
      else None)"

section \<open>Properties of the reservation transaction\<close>

lemma add_reservation_unmatched:
  "find (\<lambda>r. int_eq_json (r_id r) rid) rs = None \<Longrightarrow>
     add_reservation rs rid name dt ps = Inr ((False, None), rs)"
  by (induction rs) (auto split: if_splits)

lemma add_reservation_matched:
  "find (\<lambda>r. int_eq_json (r_id r) rid) rs = Some r \<Longrightarrow>
     \<exists>i. i < length rs \<and> rs ! i = r
       \<and> (\<forall>j < i. \<not> int_eq_json (r_id (rs ! j)) rid)
       \<and> add_reservation rs rid name (Some dt) ps =
           Inr ((True, Some \<lparr>res_id = int (length (r_reservations r)) + 1, res_name = name,
                             res_datetime = dt, res_party_size = ps, res_status = ''confirmed''\<rparr>),
                rs[i := r\<lparr>r_reservations := r_reservations r @
                     [\<lparr>res_id = int (length (r_reservations r)) + 1, res_name = name,
                       res_datetime = dt, res_party_size = ps, res_status = ''confirmed''\<rparr>]\<rparr>])"
proof (induction rs)
  case Nil
  then show ?case by simp
next
  case (Cons a rs)
  show ?case
  proof (cases "int_eq_json (r_id a) rid")
    case True
    with Cons.prems have "a = r" by simp
    with True show ?thesis by (intro exI[of _ 0]) (simp add: Let_def)
  next
    case False
    with Cons.prems have "find (\<lambda>r. int_eq_json (r_id r) rid) rs = Some r" by simp
    from Cons.IH[OF this] obtain i where i: "i < length rs" "rs ! i = r"
      "\<forall>j < i. \<not> int_eq_json (r_id (rs ! j)) rid"
      "add_reservation rs rid name (Some dt) ps =
           Inr ((True, Some \<lparr>res_id = int (length (r_reservations r)) + 1, res_name = name,
                             res_datetime = dt, res_party_size = ps, res_status = ''confirmed''\<rparr>),
                rs[i := r\<lparr>r_reservations := r_reservations r @
                     [\<lparr>res_id = int (length (r_reservations r)) + 1, res_name = name,
                       res_datetime = dt, res_party_size = ps, res_status = ''confirmed''\<rparr>]\<rparr>])"
      by blast
    have "\<forall>j < Suc i. \<not> int_eq_json (r_id ((a # rs) ! j)) rid"
      using False i(3) by (auto simp: less_Suc_eq_0_disj)
    with False i show ?thesis by (intro exI[of _ "Suc i"]) simp
  qed
qed

lemma find_update_first:
  assumes "i < length rs" "\<forall>j < i. \<not> P (rs ! j)" "P x"
  shows "find P (rs[i := x]) = Some x"
  using assms
proof (induction rs arbitrary: i)
  case Nil
  then show ?case by simp
next
  case (Cons a rs)
  show ?case
  proof (cases i)
    case 0
    with Cons.prems show ?thesis by simp
  next
    case (Suc k)
    with Cons.prems have "\<not> P a" "k < length rs" "\<forall>j < k. \<not> P (rs ! j)" by auto
    with Cons.IH[of k] Cons.prems(3) Suc show ?thesis by simp
  qed
qed

lemma find_Some_P: "find P xs = Some x \<Longrightarrow> P x"
  by (induction xs) (auto split: if_splits)

text \<open>
  Claim C2.  A commit against an id of the catalog succeeds on the first restaurant with
  that id: the new reservation gets the number of that restaurant's existing reservations
  plus one as its id and the status \<^verbatim>\<open>confirmed\<close>, and it is appended to that
  restaurant's list, every other restaurant of the catalog staying as it was.  The
  restaurant is found again under the same id with the longer list, so the next commit
  against it gets the next id: ids on one restaurant start at 1 and grow by one with each
  commit, whatever the other restaurants hold.
\<close>

theorem add_reservation_numbers:
  assumes "lookup_restaurant rs rid = Some r"
  shows "\<exists>i res rs'.
           i < length rs \<and> rs ! i = r
         \<and> add_reservation rs rid name (Some dt) ps = Inr ((True, Some res), rs')
         \<and> res_id res = int (length (r_reservations r)) + 1
         \<and> res_status res = ''confirmed''
         \<and> rs' = rs[i := r\<lparr>r_reservations := r_reservations r @ [res]\<rparr>]
         \<and> lookup_restaurant rs' rid = Some (r\<lparr>r_reservations := r_reservations r @ [res]\<rparr>)
         \<and> (\<exists>res2 rs''. add_reservation rs' rid name2 (Some dt2) ps2 = Inr ((True, Some res2), rs'')
                \<and> res_id res2 = res_id res + 1)"
proof -
  define res where "res = \<lparr>res_id = int (length (r_reservations r)) + 1, res_name = name,
     res_datetime = dt, res_party_size = ps, res_status = ''confirmed''\<rparr>"
  define r' where "r' = r\<lparr>r_reservations := r_reservations r @ [res]\<rparr>"
  from assms have f: "find (\<lambda>r. int_eq_json (r_id r) rid) rs = Some r"
    by (simp add: lookup_restaurant_def)
  from add_reservation_matched[OF f, of name dt ps] obtain i where i: "i < length rs" "rs ! i = r"
    "\<forall>j < i. \<not> int_eq_json (r_id (rs ! j)) rid"
    "add_reservation rs rid name (Some dt) ps = Inr ((True, Some res), rs[i := r'])"
    unfolding res_def r'_def by blast
  have m: "int_eq_json (r_id r') rid" using find_Some_P[OF f] by (simp add: r'_def)
  have f': "find (\<lambda>r. int_eq_json (r_id r) rid) (rs[i := r']) = Some r'"
    using find_update_first[of i rs "\<lambda>r. int_eq_json (r_id r) rid" r'] i(1,3) m by simp
  from add_reservation_matched[OF f', of name2 dt2 ps2] obtain res2 rs'' where
    "add_reservation (rs[i := r']) rid name2 (Some dt2) ps2 = Inr ((True, Some res2), rs'')"
    "res_id res2 = int (length (r_reservations r')) + 1"
    by (metis (no_types, lifting) reservation.select_convs(1))
  then have second: "\<exists>res2 rs''. add_reservation (rs[i := r']) rid name2 (Some dt2) ps2 = Inr ((True, Some res2), rs'')
     \<and> res_id res2 = res_id res + 1"
    by (auto simp: r'_def res_def)
  show ?thesis
    using i(1,2,4) f' second
    by (intro exI[of _ i] exI[of _ res] exI[of _ "rs[i := r']"])
       (simp add: lookup_restaurant_def r'_def[symmetric], simp add: res_def)
qed

text \<open>
  Claim C3.  A commit against an id that no restaurant of the catalog has returns
  \<^verbatim>\<open>(False, None)\<close> and leaves the catalog as it was (nothing is appended, and
  \<^verbatim>\<open>save_database\<close> is not reached).
\<close>

theorem add_reservation_absent:
  assumes "lookup_restaurant rs rid = None"
  shows "add_reservation rs rid name dt ps = Inr ((False, None), rs)"
  using assms unfolding lookup_restaurant_def by (rule add_reservation_unmatched)

theorem add_reservation_absent_witness:
  "lookup_restaurant example_catalog (JInt 99) = None
   \<and> add_reservation example_catalog (JInt 99) (Some ''Asha'') (Some saturday_evening) (Some 4)
       = Inr ((False, None), example_catalog)"
proof -
  have h: "lookup_restaurant example_catalog (JInt 99) = None"
    by (simp add: lookup_restaurant_def example_catalog_def spice_garden_def bamboo_bytes_def)
  show ?thesis using h add_reservation_absent[OF h] by simp
qed

theorem add_reservation_numbers_witness:
  "lookup_restaurant example_catalog (JInt 2) = Some bamboo_bytes
   \<and> (\<exists>res rs'.
         add_reservation example_catalog (JInt 2) (Some ''Asha'') (Some saturday_evening) (Some 4)
              = Inr ((True, Some res), rs')
         \<and> res_id res = 2
         \<and> res_status res = ''confirmed''
         \<and> (\<exists>res2 rs''. add_reservation rs' (JInt 2) None (Some saturday_evening) None
                            = Inr ((True, Some res2), rs'')
                \<and> res_id res2 = 3))"
proof -
  have h: "lookup_restaurant example_catalog (JInt 2) = Some bamboo_bytes"
    by (simp add: lookup_restaurant_def example_catalog_def spice_garden_def bamboo_bytes_def)
  have l: "int (length (r_reservations bamboo_bytes)) + 1 = 2"
    by (simp add: bamboo_bytes_def)
  from add_reservation_numbers[OF h, of "Some ''Asha''" saturday_evening "Some 4" None saturday_evening None]
  have "\<exists>res rs'.
         add_reservation example_catalog (JInt 2) (Some ''Asha'') (Some saturday_evening) (Some 4)
              = Inr ((True, Some res), rs')
         \<and> res_id res = int (length (r_reservations bamboo_bytes)) + 1
         \<and> res_status res = ''confirmed''
         \<and> (\<exists>res2 rs''. add_reservation rs' (JInt 2) None (Some saturday_evening) None
                            = Inr ((True, Some res2), rs'')
                \<and> res_id res2 = res_id res + 1)"
    by blast
  then have "\<exists>res rs'.
         add_reservation example_catalog (JInt 2) (Some ''Asha'') (Some saturday_evening) (Some 4)
              = Inr ((True, Some res), rs')
         \<and> res_id res = 2
         \<and> res_status res = ''confirmed''
         \<and> (\<exists>res2 rs''. add_reservation rs' (JInt 2) None (Some saturday_evening) None
                            = Inr ((True, Some res2), rs'')
                \<and> res_id res2 = 3)"
    unfolding l by (elim exE conjE) (intro exI conjI, assumption+, simp)
  with h show ?thesis by (rule conjI)
qed

section \<open>Properties of the search engine\<close>

lemma filter_cuisine_text:
  "optional_text v \<Longrightarrow> \<exists>f'. filter_cuisine v f = Inr f' \<and> set f' \<subseteq> set f"
  by (cases v) (auto simp: filter_cuisine_def optional_text_def takes_part_def)

lemma filter_location_text:
  "optional_text v \<Longrightarrow> \<exists>f'. filter_location v f = Inr f' \<and> set f' \<subseteq> set f"
  by (cases v) (auto simp: filter_location_def optional_text_def takes_part_def)

lemma filter_price_range_text:
  "optional_text v \<Longrightarrow> \<exists>f'. filter_price_range v f = Inr f' \<and> set f' \<subseteq> set f"
  by (cases v) (auto simp: filter_price_range_def optional_text_def takes_part_def)

lemma filter_seating_text:
  "optional_text v \<Longrightarrow> \<exists>f'. filter_seating v f = Inr f' \<and> set f' \<subseteq> set f"
  by (cases v) (auto simp: filter_seating_def optional_text_def takes_part_def)

lemma conjunctive_filter_text:
  assumes "search_query params"
  shows "\<exists>filtered. conjunctive_filter params rs = Inr filtered \<and> set filtered \<subseteq> set rs"
proof -
  from assms have q: "optional_text (dict_get params ''cuisine'')"
    "optional_text (dict_get params ''location'')"
    "optional_text (dict_get params ''price_range'')"
    "optional_text (dict_get params ''seating'')"
    by (simp_all add: search_query_def)
  from filter_cuisine_text[OF q(1), of rs] obtain f1 where
    f1: "filter_cuisine (dict_get params ''cuisine'') rs = Inr f1" "set f1 \<subseteq> set rs" by blast
  from filter_location_text[OF q(2), of f1] obtain f2 where
    f2: "filter_location (dict_get params ''location'') f1 = Inr f2" "set f2 \<subseteq> set f1" by blast
  from filter_price_range_text[OF q(3), of f2] obtain f3 where
    f3: "filter_price_range (dict_get params ''price_range'') f2 = Inr f3" "set f3 \<subseteq> set f2" by blast
  from filter_seating_text[OF q(4), of f3] obtain f4 where
    f4: "filter_seating (dict_get params ''seating'') f3 = Inr f4" "set f4 \<subseteq> set f3" by blast
  have "conjunctive_filter params rs = Inr f4"
    by (simp add: conjunctive_filter_def f1 f2 f3 f4)
  moreover have "set f4 \<subseteq> set rs" using f1(2) f2(2) f3(2) f4(2) by blast
  ultimately show ?thesis by blast
qed

lemma by_rating_desc_length: "length (by_rating_desc rs) = length rs"
  by (simp add: by_rating_desc_def)

lemma by_rating_desc_Nil: "by_rating_desc rs = [] \<longleftrightarrow> rs = []"
  using by_rating_desc_length[of rs] by (metis length_0_conv)

lemma by_rating_desc_set: "set (by_rating_desc rs) = set rs"
  by (simp add: by_rating_desc_def)

lemma by_rating_desc_sorted: "sorted (map (\<lambda>r. - r_rating r) (by_rating_desc rs))"
  by (simp add: by_rating_desc_def)

lemma sorted_take_drop:
  assumes "sorted (map f xs)" "x \<in> set (take n xs)" "y \<in> set (drop n xs)"
  shows "f x \<le> f y"
proof -
  have "sorted (map f (take n xs) @ map f (drop n xs))"
    using assms(1) by (simp flip: map_append)
  then show ?thesis using assms(2,3) by (auto simp: sorted_append)
qed

lemma top_rated:
  assumes "x \<in> set (take n (by_rating_desc rs))" "y \<in> set (drop n (by_rating_desc rs))"
  shows "r_rating y \<le> r_rating x"
  using sorted_take_drop[OF by_rating_desc_sorted assms] by simp

text \<open>
  Claim C5.  For a search query (each field absent or a string) \<^verbatim>\<open>find_restaurants\<close>
  returns a list, and the list is empty only for the empty catalog.  When the filters
  leave no restaurant, the result is the first three restaurants of the catalog sorted by
  descending rating (all of them when the catalog has fewer than three): restaurants of the
  catalog, none of them rated below a restaurant that was left out.
\<close>

theorem find_restaurants_never_empty:
  assumes "search_query params"
  shows "\<exists>filtered res.
           conjunctive_filter params rs = Inr filtered
         \<and> find_restaurants params rs = Inr res
         \<and> (res = [] \<longleftrightarrow> rs = [])
         \<and> (filtered = [] \<longrightarrow>
               res = take 3 (by_rating_desc rs) \<and> length res = min 3 (length rs)
             \<and> set res \<subseteq> set rs
             \<and> (\<forall>x \<in> set res. \<forall>y \<in> set (drop 3 (by_rating_desc rs)). r_rating y \<le> r_rating x))"
proof -
  from conjunctive_filter_text[OF assms, of rs] obtain filtered where
    f: "conjunctive_filter params rs = Inr filtered" "set filtered \<subseteq> set rs" by blast
  define res where "res = (if length filtered > 5 then take 5 (by_rating_desc filtered)
     else if filtered = [] then take 3 (by_rating_desc rs) else filtered)"
  have r: "find_restaurants params rs = Inr res"
    by (simp add: find_restaurants_def f(1) res_def)
  have e: "res = [] \<longleftrightarrow> rs = []"
  proof
    assume "res = []"
    then show "rs = []"
      unfolding res_def
      by (auto simp: take_eq_Nil by_rating_desc_Nil split: if_splits)
  next
    assume "rs = []"
    with f(2) have "filtered = []" by simp
    with \<open>rs = []\<close> show "res = []" by (simp add: res_def by_rating_desc_def)
  qed
  have t: "filtered = [] \<longrightarrow>
               res = take 3 (by_rating_desc rs) \<and> length res = min 3 (length rs)
             \<and> set res \<subseteq> set rs
             \<and> (\<forall>x \<in> set res. \<forall>y \<in> set (drop 3 (by_rating_desc rs)). r_rating y \<le> r_rating x)"
  proof
    assume "filtered = []"
    then have "res = take 3 (by_rating_desc rs)" by (simp add: res_def)
    then show "res = take 3 (by_rating_desc rs) \<and> length res = min 3 (length rs)
             \<and> set res \<subseteq> set rs
             \<and> (\<forall>x \<in> set res. \<forall>y \<in> set (drop 3 (by_rating_desc rs)). r_rating y \<le> r_rating x)"
      using top_rated[of _ 3 rs] set_take_subset[of 3 "by_rating_desc rs"]
      by (auto simp: by_rating_desc_length by_rating_desc_set min_def)
  qed
  from f(1) r e t show ?thesis by blast
qed

theorem find_restaurants_never_empty_witness:
  "search_query [(''cuisine'', JStr ''Mexican'')]
   \<and> conjunctive_filter [(''cuisine'', JStr ''Mexican'')] example_catalog = Inr []
   \<and> find_restaurants [(''cuisine'', JStr ''Mexican'')] example_catalog
        = Inr [spice_garden, bamboo_bytes]"
proof -
  have q: "search_query [(''cuisine'', JStr ''Mexican'')]"
    by (simp add: search_query_def optional_text_def dict_get_def)
  have c: "conjunctive_filter [(''cuisine'', JStr ''Mexican'')] example_catalog = Inr []"
    by code_simp
  have s: "take 3 (by_rating_desc example_catalog) = [spice_garden, bamboo_bytes]"
    by code_simp
  from find_restaurants_never_empty[OF q, of example_catalog] c s
  have "find_restaurants [(''cuisine'', JStr ''Mexican'')] example_catalog
        = Inr [spice_garden, bamboo_bytes]"
    by auto
  with q c show ?thesis by simp
qed

section \<open>Properties of the date and time extractor\<close>

subsection \<open>The weekday of the \<^verbatim>\<open>datetime\<close> module and the standard formula\<close>

lemma div_step:
  fixes y k :: int
  assumes "0 < k"
  shows "y div k = (y - 1) div k + (if y mod k = 0 then 1 else 0)"
proof (cases "y mod k = 0")
  case True
  have "y - 1 = k * (y div k - 1) + (k - 1)" using True
    by (simp add: algebra_simps) (metis True add.right_neutral mult_div_mod_eq)
  then have "(y - 1) div k = y div k - 1" using assms
    by (intro int_div_pos_eq[where r="k - 1"]) auto
  with True show ?thesis by simp
next
  case False
  have r: "0 < y mod k" "y mod k < k" using False assms
    by (auto simp: le_less dest: pos_mod_sign[of k y])
  have "y - 1 = k * (y div k) + (y mod k - 1)" by simp
  then have "(y - 1) div k = y div k" using r
    by (intro int_div_pos_eq[where r="y mod k - 1"]) auto
  with False show ?thesis by simp
qed
lemma mod_400_100: "(y::int) mod 400 = 0 \<Longrightarrow> y mod 100 = 0"
  using mod_mod_cancel[of 100 400 y] by simp

lemma mod_100_4: "(y::int) mod 100 = 0 \<Longrightarrow> y mod 4 = 0"
  using mod_mod_cancel[of 4 100 y] by simp
lemma is_leap_int:
  "is_leap y = (int y mod 4 = 0 \<and> (int y mod 100 \<noteq> 0 \<or> int y mod 400 = 0))"
proof -
  have "int (y mod 4) = int y mod 4" "int (y mod 100) = int y mod 100"
       "int (y mod 400) = int y mod 400"
    by (simp_all add: zmod_int)
  then show ?thesis unfolding is_leap_def
    by (metis of_nat_eq_0_iff)
qed

lemma year_step_int:
  fixes z :: int
  shows "year_days z = year_days (z - 1) + 365
          + (if z mod 4 = 0 \<and> (z mod 100 \<noteq> 0 \<or> z mod 400 = 0) then 1 else 0)"
proof -
  define A where "A = (z - 1) div 4"
  define B where "B = (z - 1) div 100"
  define C where "C = (z - 1) div 400"
  define p4 where "p4 = (z mod 4 = 0)"
  define p100 where "p100 = (z mod 100 = 0)"
  define p400 where "p400 = (z mod 400 = 0)"
  have a: "z div 4 = A + (if p4 then 1 else 0)" unfolding A_def p4_def by (rule div_step) simp
  have b: "z div 100 = B + (if p100 then 1 else 0)" unfolding B_def p100_def by (rule div_step) simp
  have c: "z div 400 = C + (if p400 then 1 else 0)" unfolding C_def p400_def by (rule div_step) simp
  have i1: "p400 \<Longrightarrow> p100" unfolding p400_def p100_def by (rule mod_400_100)
  have i2: "p100 \<Longrightarrow> p4" unfolding p4_def p100_def by (rule mod_100_4)
  have l: "year_days z = z * 365 + (A + (if p4 then 1 else 0)) - (B + (if p100 then 1 else 0)) + (C + (if p400 then 1 else 0))"
    unfolding year_days_def a b c ..
  have r: "year_days (z - 1) = (z - 1) * 365 + A - B + C"
    unfolding year_days_def A_def B_def C_def ..
  have "year_days z = year_days (z - 1) + 365 + (if p4 \<and> (\<not> p100 \<or> p400) then 1 else 0)"
    unfolding l r using i1 i2 by (cases p4; cases p100; cases p400; simp add: algebra_simps)
  then show ?thesis unfolding p4_def p100_def p400_def .
qed

lemma century_congruence:
  fixes J K kd jd :: int
  shows "(K + kd + jd + 5 * J) mod 7 = ((100 * J + K) * 365 + (25 * J + kd) - J + jd) mod 7"
proof -
  have "(100 * J + K) * 365 + (25 * J + kd) - J + jd
      = (K + kd + jd + 5 * J) + 7 * (5217 * J + 52 * K)"
    by (simp add: algebra_simps)
  then show ?thesis by (simp only: mod_mult_self2)
qed

lemma zeller_year:
  fixes n :: int
  shows "(n mod 100 + (n mod 100) div 4 + (n div 100) div 4 + 5 * (n div 100)) mod 7
       = year_days n mod 7"
proof -
  define J where "J = n div 100"
  define K where "K = n mod 100"
  have n: "n = 100 * J + K" unfolding J_def K_def by (rule mult_div_mod_eq[symmetric])
  have "n div 4 = (K + (25 * J) * 4) div 4" unfolding n by (simp only: algebra_simps mult.assoc numeral_times_numeral) simp
  also have "\<dots> = 25 * J + K div 4" by (rule div_mult_self1) simp
  finally have d4: "n div 4 = 25 * J + K div 4" .
  have "n div 400 = n div (100 * 4)" by simp
  also have "\<dots> = (n div 100) div 4" by (rule zdiv_zmult2_eq) simp
  finally have d400: "n div 400 = J div 4" unfolding J_def .
  have "(K + K div 4 + J div 4 + 5 * J) mod 7 = ((100 * J + K) * 365 + (25 * J + K div 4) - J + J div 4) mod 7"
    by (rule century_congruence)
  then have "(K + K div 4 + J div 4 + 5 * J) mod 7 = (n * 365 + n div 4 - J + n div 400) mod 7"
    unfolding d4 d400 unfolding n .
  then show ?thesis unfolding J_def K_def year_days_def .
qed
lemma year_step:
  "year_days (int y) = year_days (int y - 1) + 365 + (if is_leap y then 1 else 0)"
  unfolding is_leap_int by (rule year_step_int)

lemma mod7_shift:
  fixes c k kd jd j5 w :: int
  assumes "(k + kd + jd + j5) mod 7 = w mod 7"
  shows "((c + k + kd + jd + j5) mod 7 + 5) mod 7 = (c + w + 5) mod 7"
proof -
  have "(c + (k + kd + jd + j5)) mod 7 = (c + w) mod 7"
    using assms by (rule mod_add_cong[OF refl])
  then have "(c + k + kd + jd + j5) mod 7 = (c + w) mod 7"
    by (simp only: add.assoc)
  then show ?thesis by (simp only: mod_add_left_eq)
qed

lemma standard_weekday_eq:
  "standard_weekday y m d =
     nat ((int d + (13 * ((if m < 3 then int m + 12 else int m) + 1)) div 5
           + year_days (if m < 3 then int y - 1 else int y) + 5) mod 7)"
  unfolding standard_weekday_def Let_def
  by (simp only: mod7_shift[OF zeller_year])

lemma month_cases:
  assumes "1 \<le> m" "m \<le> 12"
  shows "m = 1 \<or> m = 2 \<or> m = 3 \<or> m = 4 \<or> m = 5 \<or> m = 6 \<or> m = 7 \<or> m = 8 \<or> m = 9
         \<or> m = 10 \<or> m = 11 \<or> m = (12::nat)"
  using assms by arith

lemma month_congruence:
  assumes "1 \<le> m" "m \<le> 12"
  shows "(year_days (int y - 1) + days_before_month y m + int d + 6) mod 7
      = (int d + (13 * ((if m < 3 then int m + 12 else int m) + 1)) div 5
           + year_days (if m < 3 then int y - 1 else int y) + 5) mod 7"
  using month_cases[OF assms]
  by (elim disjE) (simp_all add: days_before_month_def year_step mod_eq_dvd_iff)

lemma weekday_eq:
  "weekday dt = nat ((year_days (int (dt_year dt) - 1) + days_before_month (dt_year dt) (dt_month dt)
                       + int (dt_day dt) + 6) mod 7)"
  by (simp add: weekday_def toordinal_def days_before_year_def year_days_def Let_def)

lemma weekday_standard:
  assumes "1 \<le> dt_month dt" "dt_month dt \<le> 12"
  shows "weekday dt = standard_weekday (dt_year dt) (dt_month dt) (dt_day dt)"
  by (simp only: weekday_eq standard_weekday_eq month_congruence[OF assms])

lemma month_token_range: "month_token t = Some m \<Longrightarrow> 1 \<le> m \<and> m \<le> 12"
  by (auto simp: month_token_def split: if_splits)

lemma parse_fields_month:
  "parse_fields s = Some (y, m, d, h, mi) \<Longrightarrow> 1 \<le> m \<and> m \<le> 12"
  unfolding parse_fields_def Let_def
  by (auto split: if_splits list.splits option.splits dest: month_token_range)

lemma strptime_month:
  assumes "strptime s = Inr dt"
  shows "1 \<le> dt_month dt \<and> dt_month dt \<le> 12"
proof -
  from assms obtain y m d h mi where
    p: "parse_fields s = Some (y, m, d, h, mi)" and
    d: "dt = \<lparr>dt_year = y, dt_month = m, dt_day = d, dt_hour = h, dt_minute = mi\<rparr>"
    by (auto simp: strptime_def split: option.splits if_splits)
  from parse_fields_month[OF p] d show ?thesis by simp
qed

lemma takeWhile_all: "list_all P (takeWhile P xs)"
  by (induction xs) simp_all

lemma month_token_reads:
  "month_token t = Some m \<Longrightarrow> list_all is_digit t \<and> m = digits_val t \<and> 1 \<le> m \<and> m \<le> 12"
  by (auto simp: month_token_def split: if_splits)

lemma day_token_reads:
  "day_token t = Some m \<Longrightarrow> list_all is_digit t \<and> m = digits_val t"
  by (auto simp: day_token_def split: if_splits)

lemma hour_token_reads:
  "hour_token t = Some m \<Longrightarrow> list_all is_digit t \<and> m = digits_val t"
  by (auto simp: hour_token_def split: if_splits)

lemma minute_token_reads:
  "minute_token t = Some m \<Longrightarrow> list_all is_digit t \<and> m = digits_val t"
  by (auto simp: minute_token_def split: if_splits)

lemma parse_clock_reads:
  assumes "parse_clock s = Some (h, mi)"
  shows "\<exists>hs mis. s = hs @ '':'' @ mis \<and> list_all is_digit hs \<and> list_all is_digit mis
           \<and> h = digits_val hs \<and> mi = digits_val mis"
proof -
  from assms obtain rest where d: "dropWhile is_digit s = CHR '':'' # rest"
    and h: "hour_token (takeWhile is_digit s) = Some h" and m: "minute_token rest = Some mi"
    by (auto simp: parse_clock_def split: list.splits if_splits option.splits)
  have "s = takeWhile is_digit s @ dropWhile is_digit s" by simp
  with d have "s = takeWhile is_digit s @ '':'' @ rest" by simp
  with hour_token_reads[OF h] minute_token_reads[OF m] show ?thesis by blast
qed

lemma parse_day_clock_reads:
  assumes "parse_day_clock s = Some (d, h, mi)"
  shows "\<exists>pre ds ws hs mis.
           s = pre @ ds @ ws @ hs @ '':'' @ mis \<and> (pre = [] \<or> pre = '' '')
         \<and> list_all is_digit ds \<and> ws \<noteq> [] \<and> list_all is_space ws
         \<and> list_all is_digit hs \<and> list_all is_digit mis
         \<and> d = digits_val ds \<and> h = digits_val hs \<and> mi = digits_val mis"
proof -
  define tr where "tr =
            (case s of
               c # d # r \<Rightarrow>
                 if c = CHR '' '' \<and> is_digit d \<and> d \<noteq> CHR ''0'' then ([d], r)
                 else (takeWhile is_digit s, dropWhile is_digit s)
             | _ \<Rightarrow> (takeWhile is_digit s, dropWhile is_digit s))"
  obtain tk rest where tr: "tr = (tk, rest)" by (cases tr)
  have shape: "\<exists>pre. s = pre @ tk @ rest \<and> (pre = [] \<or> pre = '' '')"
    using tr unfolding tr_def by (auto split: list.splits if_splits)
  then obtain pre where s: "s = pre @ tk @ rest" and pre: "pre = [] \<or> pre = '' ''" by blast
  from assms have "(case rest of
           w # _ \<Rightarrow>
             if is_space w then
               (case (day_token tk, parse_clock (dropWhile is_space rest)) of
                  (Some d, Some (h, mi)) \<Rightarrow> Some (d, h, mi)
                | _ \<Rightarrow> None)
             else None
         | [] \<Rightarrow> None) = Some (d, h, mi)"
    unfolding parse_day_clock_def tr_def[symmetric] tr by simp
  then obtain w rest' where r: "rest = w # rest'" and w: "is_space w"
    and dt: "day_token tk = Some d" and pc: "parse_clock (dropWhile is_space rest) = Some (h, mi)"
    by (auto split: list.splits if_splits option.splits)
  from parse_clock_reads[OF pc] obtain hs mis where
    c: "dropWhile is_space rest = hs @ '':'' @ mis" "list_all is_digit hs" "list_all is_digit mis"
       "h = digits_val hs" "mi = digits_val mis" by blast
  have "rest = takeWhile is_space rest @ dropWhile is_space rest" by simp
  with c(1) have r2: "rest = takeWhile is_space rest @ hs @ '':'' @ mis" by simp
  have ne: "takeWhile is_space rest \<noteq> []" using r w by simp
  from s r2 have "s = pre @ tk @ takeWhile is_space rest @ hs @ '':'' @ mis" by simp
  with pre day_token_reads[OF dt] ne takeWhile_all[of is_space rest] c(2-5)
  show ?thesis by blast
qed

lemma parse_fields_reads:
  assumes "parse_fields s = Some (y, m, d, h, mi)"
  shows "\<exists>ys ms pre ds ws hs mis.
           s = ys @ ''-'' @ ms @ ''-'' @ pre @ ds @ ws @ hs @ '':'' @ mis
         \<and> length ys = 4 \<and> list_all is_digit ys \<and> list_all is_digit ms
         \<and> (pre = [] \<or> pre = '' '')
         \<and> list_all is_digit ds \<and> ws \<noteq> [] \<and> list_all is_space ws
         \<and> list_all is_digit hs \<and> list_all is_digit mis
         \<and> y = digits_val ys \<and> m = digits_val ms
         \<and> d = digits_val ds \<and> h = digits_val hs \<and> mi = digits_val mis"
proof -
  from assms have l: "length s \<ge> 5" and y4: "list_all is_digit (take 4 s)" and h4: "s ! 4 = CHR ''-''"
    by (auto simp: parse_fields_def split: if_splits)
  from assms l y4 h4 obtain r2 where
    d: "dropWhile is_digit (drop 5 s) = CHR ''-'' # r2"
    and mt: "month_token (takeWhile is_digit (drop 5 s)) = Some m"
    and dc: "parse_day_clock r2 = Some (d, h, mi)"
    and y: "y = digits_val (take 4 s)"
    by (auto simp: parse_fields_def Let_def split: if_splits list.splits option.splits)
  from l have "s = take 4 s @ s ! 4 # drop (Suc 4) s" by (intro id_take_nth_drop) simp
  with h4 have s1: "s = take 4 s @ ''-'' @ drop 5 s" by simp
  have "drop 5 s = takeWhile is_digit (drop 5 s) @ dropWhile is_digit (drop 5 s)" by simp
  with d have s2: "drop 5 s = takeWhile is_digit (drop 5 s) @ ''-'' @ r2" by simp
  from parse_day_clock_reads[OF dc] obtain pre ds ws hs mis where
    c: "r2 = pre @ ds @ ws @ hs @ '':'' @ mis" "pre = [] \<or> pre = '' ''"
       "list_all is_digit ds" "ws \<noteq> []" "list_all is_space ws"
       "list_all is_digit hs" "list_all is_digit mis"
       "d = digits_val ds" "h = digits_val hs" "mi = digits_val mis" by blast
  from s1 s2 c(1) have
    "s = take 4 s @ ''-'' @ takeWhile is_digit (drop 5 s) @ ''-'' @ pre @ ds @ ws @ hs @ '':'' @ mis"
    by simp
  moreover from l have "length (take 4 s) = 4" by simp
  ultimately show ?thesis
    using y4 month_token_reads[OF mt] c(2-10) y by blast
qed

lemma strptime_reads:
  assumes "strptime s = Inr dt"
  shows "\<exists>ys ms pre ds ws hs mis.
           s = ys @ ''-'' @ ms @ ''-'' @ pre @ ds @ ws @ hs @ '':'' @ mis
         \<and> length ys = 4 \<and> list_all is_digit ys \<and> list_all is_digit ms
         \<and> (pre = [] \<or> pre = '' '')
         \<and> list_all is_digit ds \<and> ws \<noteq> [] \<and> list_all is_space ws
         \<and> list_all is_digit hs \<and> list_all is_digit mis
         \<and> dt = \<lparr>dt_year = digits_val ys, dt_month = digits_val ms, dt_day = digits_val ds,
                   dt_hour = digits_val hs, dt_minute = digits_val mis\<rparr>"
proof -
  from assms obtain y m d h mi where
    p: "parse_fields s = Some (y, m, d, h, mi)" and
    d: "dt = \<lparr>dt_year = y, dt_month = m, dt_day = d, dt_hour = h, dt_minute = mi\<rparr>"
    by (auto simp: strptime_def split: option.splits if_splits)
  from parse_fields_reads[OF p] d show ?thesis by blast
qed

lemma digit_char:
  assumes "k < 10"
  shows "is_digit (char_of (48 + k))" "digit_val (char_of (48 + k)) = k"
    "\<not> is_space (char_of (48 + k))" "char_of (48 + k) \<noteq> CHR '' ''"
    "char_of (48 + k) \<noteq> CHR ''-''" "char_of (48 + k) \<noteq> CHR '':''"
proof -
  from assms have o: "(of_char (char_of (48 + k)) :: nat) = 48 + k"
    by (simp add: of_char_of)
  show "is_digit (char_of (48 + k))" unfolding is_digit_def Let_def o using assms by simp
  show "digit_val (char_of (48 + k)) = k" unfolding digit_val_def o by simp
  show "\<not> is_space (char_of (48 + k))" unfolding is_space_def Let_def o using assms by simp
  show "char_of (48 + k) \<noteq> CHR '' ''"
  proof
    assume "char_of (48 + k) = CHR '' ''"
    then have "(of_char (char_of (48 + k)) :: nat) = of_char CHR '' ''" by simp
    with o show False by simp
  qed
  show "char_of (48 + k) \<noteq> CHR ''-''"
  proof
    assume "char_of (48 + k) = CHR ''-''"
    then have "(of_char (char_of (48 + k)) :: nat) = of_char CHR ''-''" by simp
    with o show False by simp
  qed
  show "char_of (48 + k) \<noteq> CHR '':''"
  proof
    assume "char_of (48 + k) = CHR '':''"
    then have "(of_char (char_of (48 + k)) :: nat) = of_char CHR '':''" by simp
    with o assms show False by simp
  qed
qed

lemma separators:
  "\<not> is_digit CHR ''-''" "\<not> is_digit CHR '':''" "\<not> is_digit CHR '' ''" "is_space CHR '' ''"
  "\<not> is_space CHR '':''"
  by (simp_all add: is_digit_def is_space_def)

lemma digit_no_space: "is_digit c \<Longrightarrow> \<not> is_space c"
  by (auto simp: is_digit_def is_space_def Let_def)

lemma parse_fields_canonical:
  assumes "is_digit y1" "is_digit y2" "is_digit y3" "is_digit y4" "is_digit m1" "is_digit m2"
    "is_digit d1" "is_digit d2" "is_digit h1" "is_digit h2" "is_digit i1" "is_digit i2"
    "1 \<le> digits_val [m1, m2]" "digits_val [m1, m2] \<le> 12"
    "1 \<le> digits_val [d1, d2]" "digits_val [d1, d2] \<le> 31"
    "digits_val [h1, h2] \<le> 23" "digits_val [i1, i2] \<le> 59"
  shows "parse_fields ([y1, y2, y3, y4] @ ''-'' @ [m1, m2] @ ''-'' @ [d1, d2] @ '' ''
                         @ [h1, h2] @ '':'' @ [i1, i2])
       = Some (digits_val [y1, y2, y3, y4], digits_val [m1, m2], digits_val [d1, d2],
               digits_val [h1, h2], digits_val [i1, i2])"
proof -
  have d1s: "d1 \<noteq> CHR '' ''" using assms(7) separators(3) by auto
  have pc: "parse_clock ([h1, h2] @ '':'' @ [i1, i2])
              = Some (digits_val [h1, h2], digits_val [i1, i2])"
    using assms by (simp add: parse_clock_def hour_token_def minute_token_def separators)
  have pd: "parse_day_clock ([d1, d2] @ '' '' @ [h1, h2] @ '':'' @ [i1, i2])
              = Some (digits_val [d1, d2], digits_val [h1, h2], digits_val [i1, i2])"
    using assms d1s pc by (simp add: parse_day_clock_def day_token_def separators digit_no_space)
  show ?thesis
    using assms pd by (simp add: parse_fields_def month_token_def separators)
qed

lemma digits_val_two_mod: "digits_val (two_digits n) = n mod 100"
proof -
  have "digits_val (two_digits n) = 10 * (n div 10 mod 10) + n mod 10"
    by (simp add: digits_val_def two_digits_def digit_char(2))
  also have "\<dots> = n mod (10 * 10)" by (simp only: mod_mult2_eq)
  finally show ?thesis by simp
qed

lemma digits_val_two: "n < 100 \<Longrightarrow> digits_val (two_digits n) = n"
  by (simp add: digits_val_two_mod)

lemma digits_val_pairs: "digits_val ([a, b] @ [c, d]) = 100 * digits_val [a, b] + digits_val [c, d]"
  by (simp add: digits_val_def)

lemma digits_val_four: "n < 10000 \<Longrightarrow> digits_val (four_digits n) = n"
proof -
  assume n: "n < 10000"
  then have q: "n div 100 < 100" by simp
  obtain a b c d where t: "two_digits (n div 100) = [a, b]" "two_digits n = [c, d]"
    by (simp add: two_digits_def)
  have "digits_val (four_digits n)
      = 100 * digits_val (two_digits (n div 100)) + digits_val (two_digits n)"
    unfolding four_digits_def t by (rule digits_val_pairs)
  also have "\<dots> = 100 * (n div 100) + n mod 100"
    using q by (simp add: digits_val_two_mod)
  finally show ?thesis by simp
qed

lemma two_digits_shape: "\<exists>a b. two_digits n = [a, b] \<and> is_digit a \<and> is_digit b"
  by (simp add: two_digits_def digit_char(1))

lemma four_digits_shape:
  "\<exists>a b c d. four_digits n = [a, b] @ [c, d] \<and> is_digit a \<and> is_digit b \<and> is_digit c \<and> is_digit d"
proof -
  from two_digits_shape[of "n div 100"] obtain a b where
    1: "two_digits (n div 100) = [a, b]" "is_digit a" "is_digit b" by blast
  from two_digits_shape[of n] obtain c d where
    2: "two_digits n = [c, d]" "is_digit c" "is_digit d" by blast
  from 1 2 have "four_digits n = [a, b] @ [c, d]" by (simp only: four_digits_def)
  with 1 2 show ?thesis by blast
qed

lemma month_length: "1 \<le> m \<Longrightarrow> m \<le> 12 \<Longrightarrow> days_in_month (y::nat) m \<le> 31"
proof -
  assume "1 \<le> m" "m \<le> 12"
  then have "m = 1 \<or> m = 2 \<or> m = 3 \<or> m = 4 \<or> m = 5 \<or> m = 6 \<or> m = 7
        \<or> m = 8 \<or> m = 9 \<or> m = 10 \<or> m = 11 \<or> m = 12" by arith
  then show ?thesis by (elim disjE) (simp_all add: days_in_month_def)
qed

lemma strptime_iso:
  assumes "1 \<le> y" "y \<le> 9999" "1 \<le> m" "m \<le> 12" "1 \<le> d" "d \<le> days_in_month y m"
    "h \<le> 23" "mi \<le> 59"
  shows "strptime (iso_date y m d @ '' '' @ iso_time h mi)
       = Inr \<lparr>dt_year = y, dt_month = m, dt_day = d, dt_hour = h, dt_minute = mi\<rparr>"
proof -
  from month_length[OF assms(3,4), of y] assms(6) have d31: "d \<le> 31" by simp
  have v: "digits_val (four_digits y) = y" "digits_val (two_digits m) = m"
    "digits_val (two_digits d) = d" "digits_val (two_digits h) = h"
    "digits_val (two_digits mi) = mi"
    using assms d31 by (simp_all add: digits_val_two digits_val_four)
  obtain y1 y2 y3 y4 where ys: "four_digits y = [y1, y2] @ [y3, y4]"
    "is_digit y1" "is_digit y2" "is_digit y3" "is_digit y4"
    using four_digits_shape[of y] by blast
  obtain m1 m2 where ms: "two_digits m = [m1, m2]" "is_digit m1" "is_digit m2"
    using two_digits_shape[of m] by blast
  obtain d1 d2 where ds: "two_digits d = [d1, d2]" "is_digit d1" "is_digit d2"
    using two_digits_shape[of d] by blast
  obtain h1 h2 where hs: "two_digits h = [h1, h2]" "is_digit h1" "is_digit h2"
    using two_digits_shape[of h] by blast
  obtain i1 i2 where mis: "two_digits mi = [i1, i2]" "is_digit i1" "is_digit i2"
    using two_digits_shape[of mi] by blast
  have w: "digits_val [y1, y2, y3, y4] = y" "digits_val [m1, m2] = m" "digits_val [d1, d2] = d"
    "digits_val [h1, h2] = h" "digits_val [i1, i2] = mi"
    using v unfolding ys(1) ms(1) ds(1) hs(1) mis(1) by simp_all
  have "parse_fields ([y1, y2, y3, y4] @ ''-'' @ [m1, m2] @ ''-'' @ [d1, d2] @ '' ''
                         @ [h1, h2] @ '':'' @ [i1, i2])
       = Some (digits_val [y1, y2, y3, y4], digits_val [m1, m2], digits_val [d1, d2],
               digits_val [h1, h2], digits_val [i1, i2])"
    by (rule parse_fields_canonical)
       (simp_all only: ys ms ds hs mis w assms d31)
  then have "parse_fields (iso_date y m d @ '' '' @ iso_time h mi) = Some (y, m, d, h, mi)"
    unfolding w iso_date_def iso_time_def ys(1) ms(1) ds(1) hs(1) mis(1) by simp
  then show ?thesis
    using assms(1,6) by (simp add: strptime_def)
qed

lemma iso_texts:
  "iso_date y m d \<noteq> []" "iso_date y m d \<noteq> ''null''" "iso_time h mi \<noteq> []" "iso_time h mi \<noteq> ''null''"
proof -
  have "length (iso_date y m d) = 10" "length (iso_time h mi) = 5"
    by (simp_all add: iso_date_def iso_time_def four_digits_def two_digits_def)
  then show "iso_date y m d \<noteq> []" "iso_date y m d \<noteq> ''null''" "iso_time h mi \<noteq> []"
    "iso_time h mi \<noteq> ''null''"
    by auto
qed

lemma parse_date_time_returns:
  assumes "parse_date_time lc r = (Some dt, msg)"
  shows "\<exists>parsed d t.
            r = Object parsed \<and> dict_get parsed ''date'' = JStr d
          \<and> dict_get parsed ''time'' = JStr t \<and> strptime (d @ '' '' @ t) = Inr dt
          \<and> d \<noteq> [] \<and> t \<noteq> [] \<and> d \<noteq> ''null'' \<and> t \<noteq> ''null''"
proof -
  from assms obtain parsed where r: "r = Object parsed"
    by (cases r) (simp_all add: parse_date_time_def)
  from assms r obtain d t where dt: "dict_get parsed ''date'' = JStr d"
    "dict_get parsed ''time'' = JStr t"
    by (cases "dict_get parsed ''date''"; cases "dict_get parsed ''time''")
       (simp_all add: parse_date_time_def split: if_splits)
  from assms r dt have p: "strptime (d @ '' '' @ t) = Inr dt"
    by (cases "strptime (d @ '' '' @ t)") (simp_all add: parse_date_time_def split: if_splits)
  have c: "d \<noteq> [] \<and> t \<noteq> [] \<and> d \<noteq> ''null'' \<and> t \<noteq> ''null''"
    using assms r dt by (auto simp: parse_date_time_def split: if_splits)
  from r dt p c show ?thesis by blast
qed

lemma parse_date_time_texts:
  assumes "dict_get parsed ''date'' = JStr d" "dict_get parsed ''time'' = JStr t"
    "strptime (d @ '' '' @ t) = Inr dt" "d \<noteq> []" "t \<noteq> []" "d \<noteq> ''null''" "t \<noteq> ''null''"
  shows "parse_date_time lc (Object parsed)
       = (Some dt,
          if day_name lc (weekday dt) = weekday_names ! weekday dt then ''''
          else ''Got it! Reservation for '' @ weekday_names ! weekday dt
                 @ '', '' @ strftime_B_d_at lc dt @ ''.'')"
  using assms by (simp add: parse_date_time_def strftime_A_def)

text \<open>
  Claim C6.  Whenever \<^verbatim>\<open>parse_date_time\<close> returns a date and time, that value is what
  \<^verbatim>\<open>strptime\<close> reads from the \<^verbatim>\<open>date\<close> and \<^verbatim>\<open>time\<close> entries of the reply, whatever else
  the reply holds (any reply with the same two entries gives the same result).  The text
  handed to \<^verbatim>\<open>strptime\<close> is four digits, a hyphen, digits, a hyphen, digits (after at most
  one space), whitespace, digits, a colon and digits, and the year, month, day, hour and
  minute of the value are the numbers these runs of digits denote; its weekday is the one
  the standard weekday-from-date formula gives for the year, month and day written in the
  text; and the message is empty when \<^verbatim>\<open>strftime("%A")\<close> agrees with the name of that
  weekday, and otherwise the corrected confirmation built from the name of that weekday.
  Conversely a reply whose entries are a date of the calendar written \<^verbatim>\<open>YYYY-MM-DD\<close> and a
  time of day written \<^verbatim>\<open>HH:MM\<close> yields the value with these fields, whose weekday is the
  standard one for that date.
\<close>

theorem parse_date_time_weekday:
  "(\<forall>dt msg. parse_date_time lc r = (Some dt, msg) \<longrightarrow>
      (\<exists>parsed d t.
            r = Object parsed \<and> dict_get parsed ''date'' = JStr d
          \<and> dict_get parsed ''time'' = JStr t \<and> strptime (d @ '' '' @ t) = Inr dt
          \<and> (\<exists>ys ms pre ds ws hs mis.
                 d @ '' '' @ t = ys @ ''-'' @ ms @ ''-'' @ pre @ ds @ ws @ hs @ '':'' @ mis
               \<and> length ys = 4 \<and> list_all is_digit ys \<and> list_all is_digit ms
               \<and> (pre = [] \<or> pre = '' '') \<and> list_all is_digit ds
               \<and> ws \<noteq> [] \<and> list_all is_space ws
               \<and> list_all is_digit hs \<and> list_all is_digit mis
               \<and> dt = \<lparr>dt_year = digits_val ys, dt_month = digits_val ms,
                         dt_day = digits_val ds, dt_hour = digits_val hs,
                         dt_minute = digits_val mis\<rparr>
               \<and> weekday dt = standard_weekday (digits_val ys) (digits_val ms) (digits_val ds))
          \<and> (\<forall>parsed'. dict_get parsed' ''date'' = JStr d \<and> dict_get parsed' ''time'' = JStr t
                 \<longrightarrow> parse_date_time lc (Object parsed') = (Some dt, msg)))
       \<and> weekday dt = standard_weekday (dt_year dt) (dt_month dt) (dt_day dt)
       \<and> msg =
           (if day_name lc (weekday dt)
                 = weekday_names ! standard_weekday (dt_year dt) (dt_month dt) (dt_day dt)
            then ''''
            else ''Got it! Reservation for ''
                   @ weekday_names ! standard_weekday (dt_year dt) (dt_month dt) (dt_day dt)
                   @ '', '' @ strftime_B_d_at lc dt @ ''.''))
   \<and> (\<forall>parsed y m d h mi.
         r = Object parsed \<and> dict_get parsed ''date'' = JStr (iso_date y m d)
       \<and> dict_get parsed ''time'' = JStr (iso_time h mi)
       \<and> 1 \<le> y \<and> y \<le> 9999 \<and> 1 \<le> m \<and> m \<le> 12 \<and> 1 \<le> d \<and> d \<le> days_in_month y m
       \<and> h \<le> 23 \<and> mi \<le> 59
       \<longrightarrow> fst (parse_date_time lc r)
             = Some \<lparr>dt_year = y, dt_month = m, dt_day = d, dt_hour = h, dt_minute = mi\<rparr>
         \<and> weekday \<lparr>dt_year = y, dt_month = m, dt_day = d, dt_hour = h, dt_minute = mi\<rparr>
             = standard_weekday y m d)"
proof (intro conjI allI impI)
  fix dt msg
  assume a: "parse_date_time lc r = (Some dt, msg)"
  from parse_date_time_returns[OF a] obtain parsed d t where
    r: "r = Object parsed" and dt: "dict_get parsed ''date'' = JStr d"
    "dict_get parsed ''time'' = JStr t" and p: "strptime (d @ '' '' @ t) = Inr dt"
    and c: "d \<noteq> []" "t \<noteq> []" "d \<noteq> ''null''" "t \<noteq> ''null''"
    by blast
  from strptime_month[OF p] have w: "weekday dt = standard_weekday (dt_year dt) (dt_month dt) (dt_day dt)"
    by (intro weekday_standard) simp_all
  from a parse_date_time_texts[OF dt p c, of lc] r
  have m: "msg = (if day_name lc (weekday dt) = weekday_names ! weekday dt then ''''
            else ''Got it! Reservation for '' @ weekday_names ! weekday dt
                   @ '', '' @ strftime_B_d_at lc dt @ ''.'')"
    by simp
  show "weekday dt = standard_weekday (dt_year dt) (dt_month dt) (dt_day dt)" by (rule w)
  show "msg =
           (if day_name lc (weekday dt)
                 = weekday_names ! standard_weekday (dt_year dt) (dt_month dt) (dt_day dt)
            then ''''
            else ''Got it! Reservation for ''
                   @ weekday_names ! standard_weekday (dt_year dt) (dt_month dt) (dt_day dt)
                   @ '', '' @ strftime_B_d_at lc dt @ ''.'')"
    unfolding w[symmetric] by (rule m)
  have i: "\<forall>parsed'. dict_get parsed' ''date'' = JStr d \<and> dict_get parsed' ''time'' = JStr t
                 \<longrightarrow> parse_date_time lc (Object parsed') = (Some dt, msg)"
  proof (intro allI impI)
    fix parsed'
    assume "dict_get parsed' ''date'' = JStr d \<and> dict_get parsed' ''time'' = JStr t"
    then have e: "dict_get parsed' ''date'' = JStr d" "dict_get parsed' ''time'' = JStr t"
      by simp_all
    from parse_date_time_texts[OF e p c, of lc] m
    show "parse_date_time lc (Object parsed') = (Some dt, msg)" by simp
  qed
  from strptime_reads[OF p] obtain ys ms pre ds ws hs mis where
    s: "d @ '' '' @ t = ys @ ''-'' @ ms @ ''-'' @ pre @ ds @ ws @ hs @ '':'' @ mis"
      "length ys = 4" "list_all is_digit ys" "list_all is_digit ms"
      "pre = [] \<or> pre = '' ''" "list_all is_digit ds" "ws \<noteq> []" "list_all is_space ws"
      "list_all is_digit hs" "list_all is_digit mis"
    and f: "dt = \<lparr>dt_year = digits_val ys, dt_month = digits_val ms, dt_day = digits_val ds,
                   dt_hour = digits_val hs, dt_minute = digits_val mis\<rparr>"
    by blast
  from w f have wf: "weekday dt = standard_weekday (digits_val ys) (digits_val ms) (digits_val ds)"
    by simp
  have rd: "\<exists>ys ms pre ds ws hs mis.
                 d @ '' '' @ t = ys @ ''-'' @ ms @ ''-'' @ pre @ ds @ ws @ hs @ '':'' @ mis
               \<and> length ys = 4 \<and> list_all is_digit ys \<and> list_all is_digit ms
               \<and> (pre = [] \<or> pre = '' '') \<and> list_all is_digit ds
               \<and> ws \<noteq> [] \<and> list_all is_space ws
               \<and> list_all is_digit hs \<and> list_all is_digit mis
               \<and> dt = \<lparr>dt_year = digits_val ys, dt_month = digits_val ms,
                         dt_day = digits_val ds, dt_hour = digits_val hs,
                         dt_minute = digits_val mis\<rparr>
               \<and> weekday dt = standard_weekday (digits_val ys) (digits_val ms) (digits_val ds)"
    using s f wf by blast
  show "\<exists>parsed d t.
            r = Object parsed \<and> dict_get parsed ''date'' = JStr d
          \<and> dict_get parsed ''time'' = JStr t \<and> strptime (d @ '' '' @ t) = Inr dt
          \<and> (\<exists>ys ms pre ds ws hs mis.
                 d @ '' '' @ t = ys @ ''-'' @ ms @ ''-'' @ pre @ ds @ ws @ hs @ '':'' @ mis
               \<and> length ys = 4 \<and> list_all is_digit ys \<and> list_all is_digit ms
               \<and> (pre = [] \<or> pre = '' '') \<and> list_all is_digit ds
               \<and> ws \<noteq> [] \<and> list_all is_space ws
               \<and> list_all is_digit hs \<and> list_all is_digit mis
               \<and> dt = \<lparr>dt_year = digits_val ys, dt_month = digits_val ms,
                         dt_day = digits_val ds, dt_hour = digits_val hs,
                         dt_minute = digits_val mis\<rparr>
               \<and> weekday dt = standard_weekday (digits_val ys) (digits_val ms) (digits_val ds))
          \<and> (\<forall>parsed'. dict_get parsed' ''date'' = JStr d \<and> dict_get parsed' ''time'' = JStr t
                 \<longrightarrow> parse_date_time lc (Object parsed') = (Some dt, msg))"
    using r dt p rd i by blast
next
  fix parsed y m d h mi
  assume a: "r = Object parsed \<and> dict_get parsed ''date'' = JStr (iso_date y m d)
       \<and> dict_get parsed ''time'' = JStr (iso_time h mi)
       \<and> 1 \<le> y \<and> y \<le> 9999 \<and> 1 \<le> m \<and> m \<le> 12 \<and> 1 \<le> d \<and> d \<le> days_in_month y m
       \<and> h \<le> 23 \<and> mi \<le> 59"
  then have r: "r = Object parsed" and e: "dict_get parsed ''date'' = JStr (iso_date y m d)"
    "dict_get parsed ''time'' = JStr (iso_time h mi)"
    and v: "1 \<le> y" "y \<le> 9999" "1 \<le> m" "m \<le> 12" "1 \<le> d" "d \<le> days_in_month y m"
      "h \<le> 23" "mi \<le> 59"
    by simp_all
  from parse_date_time_texts[OF e strptime_iso[OF v] iso_texts(1)[of y m d]
      iso_texts(3)[of h mi] iso_texts(2)[of y m d] iso_texts(4)[of h mi], of lc] r
  show "fst (parse_date_time lc r)
             = Some \<lparr>dt_year = y, dt_month = m, dt_day = d, dt_hour = h, dt_minute = mi\<rparr>"
    by simp
  show "weekday \<lparr>dt_year = y, dt_month = m, dt_day = d, dt_hour = h, dt_minute = mi\<rparr>
             = standard_weekday y m d"
    using weekday_standard[of "\<lparr>dt_year = y, dt_month = m, dt_day = d, dt_hour = h, dt_minute = mi\<rparr>"] v
    by simp
qed

theorem parse_date_time_weekday_witness:
  "parse_date_time c_names (datetime_reply example_model ''saturday 7:30 pm'')
      = (Some saturday_evening, '''')
   \<and> dict_get [(''date'', JStr ''2025-06-14''), (''time'', JStr ''19:30''),
                (''weekday'', JStr ''Monday''), (''confidence'', JStr ''high'')] ''weekday''
      = JStr ''Monday''
   \<and> weekday saturday_evening = standard_weekday 2025 6 14
   \<and> weekday_names ! standard_weekday 2025 6 14 = ''Saturday''
   \<and> fst (parse_date_time c_names
            (Object [(''date'', JStr (iso_date 2024 2 29)), (''time'', JStr (iso_time 8 5))]))
      = Some \<lparr>dt_year = 2024, dt_month = 2, dt_day = 29, dt_hour = 8, dt_minute = 5\<rparr>
   \<and> iso_date 2024 2 29 = ''2024-02-29'' \<and> iso_time 8 5 = ''08:05''
   \<and> weekday_names ! standard_weekday 2024 2 29 = ''Thursday''"
proof -
  have h: "parse_date_time c_names (datetime_reply example_model ''saturday 7:30 pm'')
      = (Some saturday_evening, '''')"
    by code_simp
  have s: "weekday_names ! standard_weekday 2025 6 14 = ''Saturday''"
    "weekday_names ! standard_weekday 2024 2 29 = ''Thursday''"
    by code_simp+
  have g: "dict_get [(''date'', JStr ''2025-06-14''), (''time'', JStr ''19:30''),
                (''weekday'', JStr ''Monday''), (''confidence'', JStr ''high'')] ''weekday''
      = JStr ''Monday''"
    by (simp add: dict_get_def)
  have t: "iso_date 2024 2 29 = ''2024-02-29''" "iso_time 8 5 = ''08:05''"
    by code_simp+
  have l: "(29::nat) \<le> days_in_month 2024 2" by code_simp
  from parse_date_time_weekday[of c_names "datetime_reply example_model ''saturday 7:30 pm''",
      THEN conjunct1, rule_format, OF h]
  have "weekday saturday_evening
          = standard_weekday (dt_year saturday_evening) (dt_month saturday_evening)
              (dt_day saturday_evening)"
    by (elim conjE)
  then have 1: "weekday saturday_evening = standard_weekday 2025 6 14"
    by (simp add: saturday_evening_def)
  have p: "Object [(''date'', JStr (iso_date 2024 2 29)), (''time'', JStr (iso_time 8 5))]
             = Object [(''date'', JStr (iso_date 2024 2 29)), (''time'', JStr (iso_time 8 5))]
         \<and> dict_get [(''date'', JStr (iso_date 2024 2 29)), (''time'', JStr (iso_time 8 5))] ''date''
             = JStr (iso_date 2024 2 29)
         \<and> dict_get [(''date'', JStr (iso_date 2024 2 29)), (''time'', JStr (iso_time 8 5))] ''time''
             = JStr (iso_time 8 5)
         \<and> (1::nat) \<le> 2024 \<and> (2024::nat) \<le> 9999 \<and> (1::nat) \<le> 2 \<and> (2::nat) \<le> 12 \<and> (1::nat) \<le> 29
         \<and> (29::nat) \<le> days_in_month 2024 2 \<and> (8::nat) \<le> 23 \<and> (5::nat) \<le> 59"
    using l by (simp add: dict_get_def)
  from parse_date_time_weekday[of c_names
      "Object [(''date'', JStr (iso_date 2024 2 29)), (''time'', JStr (iso_time 8 5))]",
      THEN conjunct2, rule_format, OF p]
  have 2: "fst (parse_date_time c_names
            (Object [(''date'', JStr (iso_date 2024 2 29)), (''time'', JStr (iso_time 8 5))]))
      = Some \<lparr>dt_year = 2024, dt_month = 2, dt_day = 29, dt_hour = 8, dt_minute = 5\<rparr>"
    by (elim conjE)
  show ?thesis
    by (intro conjI) (rule h, rule g, rule 1, rule s(1), rule 2, rule t(1), rule t(2), rule s(2))
qed

lemma parse_date_time_corrected_example:
  "parse_date_time (c_names\<lparr>day_name := (\<lambda>i. ''Samstag'')\<rparr>)
       (Object [(''date'', JStr ''2025-06-14''), (''time'', JStr ''19:30'')])
     = (Some saturday_evening, ''Got it! Reservation for Saturday, June 14 at 07:30 PM.'')"
  by code_simp

section \<open>Properties of the party size extractor\<close>

text \<open>
  Claim C8 fails as stated: a negative party size reported by the model is returned as a
  value.
\<close>

theorem parse_party_size_negative:
  "parse_party_size (Object [(''party_size'', JInt (- 2))]) = (Some (- 2), '''')"
  by (simp add: parse_party_size_def dict_get_def)

lemma parse_party_size_zero_text:
  "parse_party_size (Object [(''party_size'', JStr ''0'')]) = (Some 0, '''')"
  by code_simp

lemma digits_val_snoc: "digits_val (ds @ [c]) = 10 * digits_val ds + digit_val c"
  by (simp add: digits_val_def)

lemma show_nat_digits:
  "list_all is_digit (show_nat n) \<and> show_nat n \<noteq> [] \<and> digits_val (show_nat n) = n"
proof (induction n rule: show_nat.induct)
  case (1 n)
  show ?case
  proof (cases "n < 10")
    case True
    then have "show_nat n = [char_of (48 + n)]" by (subst show_nat.simps) simp
    with True show ?thesis by (simp add: digit_char(1,2) digits_val_def)
  next
    case False
    then have e: "show_nat n = show_nat (n div 10) @ [char_of (48 + n mod 10)]"
      by (subst show_nat.simps) simp
    have m: "n mod 10 < 10" by simp
    from 1[OF False] show ?thesis
      unfolding e by (simp add: digits_val_snoc digit_char(1)[OF m] digit_char(2)[OF m])
  qed
qed

lemma int_digits_all:
  "list_all is_digit ds \<Longrightarrow> ds \<noteq> [] \<or> prev
     \<Longrightarrow> int_digits prev acc ds = Some (foldl (\<lambda>a c. 10 * a + digit_val c) acc ds)"
  by (induction ds arbitrary: prev acc) auto

lemma int_literal_digits:
  assumes "list_all is_digit ds" "ds \<noteq> []" "length ds \<le> max_str_digits"
  shows "int_literal ds = Inr (digits_val ds)"
proof -
  from assms(1) have "filter is_digit ds = ds" by (simp add: list_all_iff)
  with assms(3) have "\<not> length (filter is_digit ds) > max_str_digits" by simp
  moreover from int_digits_all[OF assms(1), of False 0] assms(2)
  have "int_digits False 0 ds = Some (digits_val ds)" by (simp add: digits_val_def)
  ultimately show ?thesis by (simp add: int_literal_def)
qed

lemma digit_no_int_space: "is_digit c \<Longrightarrow> \<not> int_space c"
  by (auto simp: is_digit_def int_space_def Let_def)

lemma digit_no_sign: "is_digit c \<Longrightarrow> c \<noteq> CHR ''-'' \<and> c \<noteq> CHR ''+''"
  by (auto simp: is_digit_def)

lemma dropWhile_ends:
  assumes "xs \<noteq> []" "\<not> P (hd xs)" "\<not> P (last xs)"
  shows "rev (dropWhile P (rev (dropWhile P xs))) = xs"
proof -
  from assms(1,2) have 1: "dropWhile P xs = xs" by (cases xs) simp_all
  from assms(1,3) have "dropWhile P (rev xs) = rev xs"
    by (cases "rev xs") (simp_all add: last_rev[symmetric] hd_rev)
  with 1 show ?thesis by simp
qed

lemma minus_no_int_space: "\<not> int_space CHR ''-''"
  by (simp add: int_space_def)

lemma int_of_str_show_int:
  assumes "length (show_nat (nat \<bar>m\<bar>)) \<le> max_str_digits"
  shows "int_of_str (show_int m) = Inr m"
proof (cases "m < 0")
  case True
  let ?ds = "show_nat (nat (- m))"
  from show_nat_digits[of "nat (- m)"] have d: "list_all is_digit ?ds" "?ds \<noteq> []"
    "digits_val ?ds = nat (- m)" by simp_all
  from d(1,2) have l: "is_digit (last ?ds)" by (simp add: list_all_iff)
  have "int_strip (CHR ''-'' # ?ds) = CHR ''-'' # ?ds"
    unfolding int_strip_def
    using d(2) l by (intro dropWhile_ends) (simp_all add: digit_no_int_space minus_no_int_space)
  moreover from True assms have "length ?ds \<le> max_str_digits" by simp
  note int_literal_digits[OF d(1,2) this]
  ultimately show ?thesis using True d(3) by (simp add: int_of_str_def show_int_def)
next
  case False
  let ?ds = "show_nat (nat m)"
  from show_nat_digits[of "nat m"] have d: "list_all is_digit ?ds" "?ds \<noteq> []"
    "digits_val ?ds = nat m" by simp_all
  from d(1,2) have l: "is_digit (last ?ds)" "is_digit (hd ?ds)" by (simp_all add: list_all_iff)
  have s: "int_strip ?ds = ?ds"
    unfolding int_strip_def
    using d(2) l by (intro dropWhile_ends) (simp_all add: digit_no_int_space)
  from False assms have "length ?ds \<le> max_str_digits" by simp
  note i = int_literal_digits[OF d(1,2) this]
  obtain c cs where e: "?ds = c # cs" using d(2) by (cases ?ds) auto
  with l(2) have "c \<noteq> CHR ''-''" "c \<noteq> CHR ''+''" using digit_no_sign by auto
  with s e i d(3) False show ?thesis by (simp add: int_of_str_def show_int_def)
qed

lemma parse_party_size_fst:
  "fst (parse_party_size r) =
     (case r of
        Object parsed \<Rightarrow>
          if takes_part (dict_get parsed ''party_size'') then
            (case py_int (dict_get parsed ''party_size'') of Inr n \<Rightarrow> Some n | Inl e \<Rightarrow> None)
          else None
      | _ \<Rightarrow> None)"
  by (simp add: parse_party_size_def takes_part_def split: reply.splits sum.splits)

lemma parse_party_size_snd:
  "snd (parse_party_size r) = [] \<longleftrightarrow> fst (parse_party_size r) \<noteq> None"
  by (simp add: parse_party_size_def split: reply.splits sum.splits)

lemma takes_part_cases:
  "takes_part JNull = False" "takes_part (JBool b) = b" "takes_part (JInt m) = (m \<noteq> 0)"
  "takes_part (JFloat (Fin q)) = (q \<noteq> 0)" "takes_part (JFloat Nan) = True"
  "takes_part (JFloat (Inf g)) = True" "takes_part (JStr s) = (s \<noteq> [] \<and> s \<noteq> ''null'')"
  "takes_part (JArr xs) = (xs \<noteq> [])" "takes_part (JObj kvs) = (kvs \<noteq> [])"
  by (simp_all add: takes_part_def)

lemma show_int_text: "show_int m \<noteq> [] \<and> show_int m \<noteq> ''null''"
proof (cases "m < 0")
  case True
  then show ?thesis by (simp add: show_int_def)
next
  case False
  from show_nat_digits[of "nat m"] obtain c cs where e: "show_nat (nat m) = c # cs" "is_digit c"
    by (cases "show_nat (nat m)") auto
  from e(2) have "c \<noteq> CHR ''n''" by (auto simp: is_digit_def)
  with e(1) False show ?thesis by (simp add: show_int_def)
qed

text \<open>
  Claim C8 as amended.  \<^verbatim>\<open>parse_party_size\<close> returns either an integer with an empty
  message or nothing with a clarification message, and the message is empty exactly when
  an integer is returned.  It returns the integer \<open>n\<close> exactly when the reply decodes to an
  object whose \<^verbatim>\<open>party_size\<close> entry is truthy, is not the text \<^verbatim>\<open>null\<close> and is turned into
  \<open>n\<close> by \<^verbatim>\<open>int()\<close>.  By the kind of the entry: a missing or null entry, \<^verbatim>\<open>false\<close>, the
  integer 0, the float 0.0, NaN, an infinity, the empty text, the text \<^verbatim>\<open>null\<close>, a list and
  an object give nothing; \<^verbatim>\<open>true\<close> gives 1; any other integer is returned as it is,
  whatever its sign; any other finite float is truncated towards zero (so 0.5 gives 0);
  any other text gives what \<^verbatim>\<open>int()\<close> reads from it, or nothing when \<^verbatim>\<open>int()\<close> refuses it.
  In particular the decimal numeral of any integer, of at most \<open>max_str_digits\<close> digits,
  is returned as that integer (so the text \<^verbatim>\<open>0\<close> gives 0).
\<close>

theorem parse_party_size_result:
  "(\<forall>n. fst (parse_party_size r) = Some n \<longleftrightarrow>
          (\<exists>parsed. r = Object parsed \<and> takes_part (dict_get parsed ''party_size'')
                    \<and> py_int (dict_get parsed ''party_size'') = Inr n))
   \<and> (snd (parse_party_size r) = [] \<longleftrightarrow> fst (parse_party_size r) \<noteq> None)
   \<and> (\<forall>parsed. r = Object parsed \<longrightarrow>
         fst (parse_party_size r) =
           (case dict_get parsed ''party_size'' of
              JNull \<Rightarrow> None
            | JBool b \<Rightarrow> if b then Some 1 else None
            | JInt m \<Rightarrow> if m = 0 then None else Some m
            | JFloat f \<Rightarrow>
                (case f of
                   Fin q \<Rightarrow> if q = 0 then None else Some (if 0 \<le> q then \<lfloor>q\<rfloor> else \<lceil>q\<rceil>)
                 | Nan \<Rightarrow> None
                 | Inf _ \<Rightarrow> None)
            | JStr s \<Rightarrow>
                if s = [] \<or> s = ''null'' then None
                else (case int_of_str s of Inr k \<Rightarrow> Some k | Inl _ \<Rightarrow> None)
            | JArr _ \<Rightarrow> None
            | JObj _ \<Rightarrow> None))
   \<and> (\<forall>parsed m. r = Object parsed \<and> dict_get parsed ''party_size'' = JStr (show_int m)
                  \<and> length (show_nat (nat \<bar>m\<bar>)) \<le> max_str_digits
          \<longrightarrow> fst (parse_party_size r) = Some m)"
proof (intro conjI allI impI)
  fix n
  show "fst (parse_party_size r) = Some n \<longleftrightarrow>
          (\<exists>parsed. r = Object parsed \<and> takes_part (dict_get parsed ''party_size'')
                    \<and> py_int (dict_get parsed ''party_size'') = Inr n)"
    unfolding parse_party_size_fst by (cases r) (simp_all split: sum.splits)
next
  show "snd (parse_party_size r) = [] \<longleftrightarrow> fst (parse_party_size r) \<noteq> None"
    by (rule parse_party_size_snd)
next
  fix parsed
  assume r: "r = Object parsed"
  show "fst (parse_party_size r) =
           (case dict_get parsed ''party_size'' of
              JNull \<Rightarrow> None
            | JBool b \<Rightarrow> if b then Some 1 else None
            | JInt m \<Rightarrow> if m = 0 then None else Some m
            | JFloat f \<Rightarrow>
                (case f of
                   Fin q \<Rightarrow> if q = 0 then None else Some (if 0 \<le> q then \<lfloor>q\<rfloor> else \<lceil>q\<rceil>)
                 | Nan \<Rightarrow> None
                 | Inf _ \<Rightarrow> None)
            | JStr s \<Rightarrow>
                if s = [] \<or> s = ''null'' then None
                else (case int_of_str s of Inr k \<Rightarrow> Some k | Inl _ \<Rightarrow> None)
            | JArr _ \<Rightarrow> None
            | JObj _ \<Rightarrow> None)"
  proof (cases "dict_get parsed ''party_size''")
    case (JFloat f)
    then show ?thesis unfolding parse_party_size_fst r
      by (cases f) (simp_all add: takes_part_cases)
  qed (simp_all add: parse_party_size_fst r takes_part_cases split: sum.splits)
next
  fix parsed m
  assume a: "r = Object parsed \<and> dict_get parsed ''party_size'' = JStr (show_int m)
                  \<and> length (show_nat (nat \<bar>m\<bar>)) \<le> max_str_digits"
  then have i: "int_of_str (show_int m) = Inr m" by (simp add: int_of_str_show_int)
  from a i show_int_text[of m] show "fst (parse_party_size r) = Some m"
    unfolding parse_party_size_fst by (simp add: takes_part_cases)
qed

theorem parse_party_size_result_witness:
  "parse_party_size (party_reply example_model ''4'') = (Some 4, '''')
   \<and> fst (parse_party_size (Object [(''party_size'', JInt 0)])) = None
   \<and> fst (parse_party_size (Object [(''party_size'', JStr ''0'')])) = Some 0
   \<and> fst (parse_party_size (Object [(''party_size'', JFloat (Fin (1 / 2)))])) = Some 0
   \<and> fst (parse_party_size (Object [(''party_size'', JBool True)])) = Some 1
   \<and> fst (parse_party_size (Object [(''party_size'', JStr (show_int 12))])) = Some 12
   \<and> show_int 12 = ''12''"
proof -
  note c = parse_party_size_result[THEN conjunct2, THEN conjunct2, THEN conjunct1, rule_format, OF refl]
  have g: "party_reply example_model ''4''
             = Object [(''party_size'', JInt 4), (''confidence'', JStr ''high'')]"
    by (simp add: example_model_def)
  have f: "fst (parse_party_size (party_reply example_model ''4'')) = Some 4"
    unfolding g by (subst c) (simp add: dict_get_def)
  from parse_party_size_result[of "party_reply example_model ''4''", THEN conjunct2, THEN conjunct1] f
  have "snd (parse_party_size (party_reply example_model ''4'')) = []" by simp
  with f have 1: "parse_party_size (party_reply example_model ''4'') = (Some 4, '''')"
    by (cases "parse_party_size (party_reply example_model ''4'')") simp
  have 2: "fst (parse_party_size (Object [(''party_size'', JInt 0)])) = None"
    by (subst c) (simp add: dict_get_def)
  have z: "int_of_str ''0'' = Inr 0" by code_simp
  have 3: "fst (parse_party_size (Object [(''party_size'', JStr ''0'')])) = Some 0"
    by (subst c) (simp add: dict_get_def z)
  have fl: "\<lfloor>1 / 2 :: rat\<rfloor> = 0" by (rule floor_unique) simp_all
  have 4: "fst (parse_party_size (Object [(''party_size'', JFloat (Fin (1 / 2)))])) = Some 0"
    by (subst c) (simp add: dict_get_def fl)
  have 5: "fst (parse_party_size (Object [(''party_size'', JBool True)])) = Some 1"
    by (subst c) (simp add: dict_get_def)
  have l: "length (show_nat (nat \<bar>12\<bar>)) \<le> max_str_digits" by code_simp
  have p: "Object [(''party_size'', JStr (show_int 12))] = Object [(''party_size'', JStr (show_int 12))]
         \<and> dict_get [(''party_size'', JStr (show_int 12))] ''party_size'' = JStr (show_int 12)
         \<and> length (show_nat (nat \<bar>12\<bar>)) \<le> max_str_digits"
    using l by (simp add: dict_get_def)
  note 6 = parse_party_size_result[THEN conjunct2, THEN conjunct2, THEN conjunct2, rule_format, OF p]
  have 7: "show_int 12 = ''12''" by code_simp
  show ?thesis
    by (intro conjI) (rule 1, rule 2, rule 3, rule 4, rule 5, rule 6, rule 7)
qed

end
